theory Spec2Isabelle
  imports Main "HOL-Library.List_Lexorder" "HOL-Library.Char_ord"
begin

section \<open>Values, exceptions and containers\<close>

text \<open>
  The shard data plane of the graph engine (\<^verbatim>\<open>Shard.cpp\<close>, \<^verbatim>\<open>Types.cpp\<close>,
  \<^verbatim>\<open>Node.cpp\<close>, \<^verbatim>\<open>Relationship.cpp\<close>, \<^verbatim>\<open>Property.cpp\<close>) as pure functions.
  Unsigned 64-bit identifiers are natural numbers, with the wrap-around of
  \<^verbatim>\<open>internalToExternal\<close> written out. A C++ exception or an undefined read is the
  left summand of the result.
\<close>

datatype exn =
    out_of_range              \<comment> \<open>thrown by \<^verbatim>\<open>vector::at\<close> and \<^verbatim>\<open>unordered_map::at\<close>\<close>
  | simdjson_error            \<comment> \<open>thrown by a typed conversion of a \<^verbatim>\<open>dom::element\<close>\<close>
  | end_iterator_dereference  \<comment> \<open>undefined behaviour: \<^verbatim>\<open>it->second\<close> with \<^verbatim>\<open>it == end()\<close>\<close>
  | no_such_shard             \<comment> \<open>\<^verbatim>\<open>invoke_on\<close> of a shard the container does not have\<close>

text \<open>
  A \<^verbatim>\<open>double\<close> is its bit pattern, or the conversion of an integer left
  unevaluated; no claim computes with it.
\<close>

datatype double = Double_bits nat | Double_of_int int

text \<open>\<^verbatim>\<open>std::any\<close> restricted to the types the engine stores in it.\<close>

datatype any =
    tombstone_any
  | String_any string
  | Int64_any int
  | Double_any double
  | Bool_any bool
  | Object_any "(string \<times> any) list"
  | Int64_vector "int list"
  | Double_vector "double list"
  | String_vector "string list"
  | Bool_vector "bool list"

text \<open>
  \<^verbatim>\<open>std::map\<close>: an association list kept in key order. \<^verbatim>\<open>insert\<close> leaves the
  map as it is when the key is present. \<open>property_map\<close> is
  \<^verbatim>\<open>std::map<std::string, std::any>\<close>.
\<close>

type_synonym property_map = "(string \<times> any) list"

definition map_insert :: "('k::linorder) \<times> 'v \<Rightarrow> ('k \<times> 'v) list \<Rightarrow> ('k \<times> 'v) list" where
  "map_insert kv m = (if fst kv \<in> fst ` set m then m else insort_key fst kv m)"

text \<open>
  \<^verbatim>\<open>target.merge(source)\<close>: every element of \<^verbatim>\<open>source\<close> whose key is not in
  \<^verbatim>\<open>target\<close> moves to \<^verbatim>\<open>target\<close>; the result is the new \<^verbatim>\<open>target\<close>.
\<close>

definition map_merge :: "property_map \<Rightarrow> property_map \<Rightarrow> property_map" where
  "map_merge target source = foldl (\<lambda>m kv. map_insert kv m) target source"

text \<open>
  \<^verbatim>\<open>std::unordered_map\<close>: an association list in insertion order; \<^verbatim>\<open>emplace\<close>
  does nothing when the key is present, \<^verbatim>\<open>at\<close> throws when it is absent.
\<close>

definition emplace :: "'k \<Rightarrow> 'v \<Rightarrow> ('k \<times> 'v) list \<Rightarrow> ('k \<times> 'v) list" where
  "emplace k v m = (if k \<in> fst ` set m then m else m @ [(k, v)])"

definition at_map :: "('k \<times> 'v) list \<Rightarrow> 'k \<Rightarrow> exn + 'v" where
  "at_map m k = (case map_of m k of None \<Rightarrow> Inl out_of_range | Some v \<Rightarrow> Inr v)"

definition at :: "'a list \<Rightarrow> nat \<Rightarrow> exn + 'a" where
  "at xs i = (if i < length xs then Inr (xs ! i) else Inl out_of_range)"

section \<open>Property, Node, Relationship\<close>

text \<open>
  A \<^verbatim>\<open>Property\<close> stores the hash of its key and finds the key again through the
  static interner; with no two keys of one hash, \<^verbatim>\<open>getKey\<close> is the key given to
  the constructor, which is what the record keeps.
\<close>

record Property =
  getKey :: string
  getValue :: any

definition Property_of :: "string \<times> any \<Rightarrow> Property" where
  "Property_of kv = \<lparr>getKey = fst kv, getValue = snd kv\<rparr>"

text \<open>
  The operands of \<^verbatim>\<open>!=\<close> in \<^verbatim>\<open>deleteProperty\<close> are unsequenced in C++17: a
  compiler may call \<^verbatim>\<open>erase\<close> before or after it reads \<^verbatim>\<open>properties.end()\<close>.
\<close>

datatype eval_order = lhs_first | rhs_first

text \<open>
  Iterators of the vector are offsets from \<^verbatim>\<open>begin()\<close>. \<^verbatim>\<open>remove_if\<close> returns
  the end of the kept elements, \<^verbatim>\<open>erase\<close> cuts the vector there and returns that
  same position.
\<close>

definition deleteProperty :: "eval_order \<Rightarrow> string \<Rightarrow> Property list \<Rightarrow> bool \<times> Property list" where
  "deleteProperty ord property properties =
     (let end_before = length properties;
          kept = filter (\<lambda>x. getKey x \<noteq> property) properties;
          erased = length kept;
          end_after = length kept
      in ((case ord of lhs_first \<Rightarrow> erased \<noteq> end_after | rhs_first \<Rightarrow> erased \<noteq> end_before), kept))"

definition getProperty :: "string \<Rightarrow> Property list \<Rightarrow> any" where
  "getProperty property properties =
     (case find (\<lambda>prop. getKey prop = property) properties of
        Some result \<Rightarrow> getValue result
      | None \<Rightarrow> tombstone_any)"

definition setProperty :: "eval_order \<Rightarrow> string \<Rightarrow> any \<Rightarrow> Property list \<Rightarrow> Property list" where
  "setProperty ord property v properties =
     snd (deleteProperty ord property properties) @ [\<lparr>getKey = property, getValue = v\<rparr>]"

definition getProperties :: "Property list \<Rightarrow> property_map" where
  "getProperties properties =
     foldl (\<lambda>property_map prop. map_insert (getKey prop, getValue prop) property_map) [] properties"

definition setProperties :: "property_map \<Rightarrow> Property list" where
  "setProperties new_properties = map Property_of new_properties"

text \<open>The key and value of each property of a vector, in the vector's order.\<close>

definition entries :: "Property list \<Rightarrow> property_map" where
  "entries ps = map (\<lambda>p. (getKey p, getValue p)) ps"

record Node =
  Node_id :: nat
  Node_type_id :: nat
  Node_key :: string
  Node_properties :: "Property list"

definition Node_zero :: Node where
  "Node_zero = \<lparr>Node_id = 0, Node_type_id = 0, Node_key = [], Node_properties = []\<rparr>"

definition Node_new :: "nat \<Rightarrow> nat \<Rightarrow> string \<Rightarrow> property_map \<Rightarrow> Node" where
  "Node_new i t k property_map =
     \<lparr>Node_id = i, Node_type_id = t, Node_key = k, Node_properties = map Property_of property_map\<rparr>"

definition Node_deleteProperty :: "eval_order \<Rightarrow> string \<Rightarrow> Node \<Rightarrow> bool \<times> Node" where
  "Node_deleteProperty ord property n =
     (let r = deleteProperty ord property (Node_properties n)
      in (fst r, n\<lparr>Node_properties := snd r\<rparr>))"

record Relationship =
  Rel_id :: nat
  Rel_type :: nat
  starting_node_id :: nat
  ending_node_id :: nat
  Rel_properties :: "Property list"

definition Relationship_zero :: Relationship where
  "Relationship_zero =
     \<lparr>Rel_id = 0, Rel_type = 0, starting_node_id = 0, ending_node_id = 0, Rel_properties = []\<rparr>"

definition Relationship_new :: "nat \<Rightarrow> nat \<Rightarrow> nat \<Rightarrow> nat \<Rightarrow> property_map \<Rightarrow> Relationship" where
  "Relationship_new i startingNodeId endingNodeId t property_map =
     \<lparr>Rel_id = i, Rel_type = t, starting_node_id = startingNodeId, ending_node_id = endingNodeId,
      Rel_properties = map Property_of property_map\<rparr>"

definition Relationship_deleteProperty :: "eval_order \<Rightarrow> string \<Rightarrow> Relationship \<Rightarrow> bool \<times> Relationship" where
  "Relationship_deleteProperty ord property r =
     (let d = deleteProperty ord property (Rel_properties r)
      in (fst d, r\<lparr>Rel_properties := snd d\<rparr>))"

section \<open>Types: the type interner\<close>

text \<open>
  The member \<^verbatim>\<open>ids\<close> of \<^verbatim>\<open>Types\<close> is \<open>ids_of_type\<close> here (a \<^verbatim>\<open>Group\<close> has an
  \<^verbatim>\<open>ids\<close> too). A \<^verbatim>\<open>Roaring64Map\<close> is a set of 64-bit numbers.
\<close>

record Types =
  type_to_id :: "(string \<times> nat) list"
  id_to_type :: "(nat \<times> string) list"
  ids_of_type :: "(nat \<times> nat set) list"

definition Types_new :: Types where
  "Types_new = \<lparr>type_to_id = [([], 0)], id_to_type = [(0, [])], ids_of_type = [(0, {})]\<rparr>"

definition getTypeId :: "Types \<Rightarrow> string \<Rightarrow> nat" where
  "getTypeId t token = (case map_of (type_to_id t) token of Some i \<Rightarrow> i | None \<Rightarrow> 0)"

definition getType :: "Types \<Rightarrow> nat \<Rightarrow> exn + string" where
  "getType t type_id =
     (case map_of (id_to_type t) type_id of
        Some token \<Rightarrow> Inr token
      | None \<Rightarrow> at_map (id_to_type t) 0)"

definition ValidTypeId :: "Types \<Rightarrow> nat \<Rightarrow> bool" where
  "ValidTypeId t type_id = (type_id > 0 \<and> type_id < length (id_to_type t))"

definition update_ids :: "nat \<Rightarrow> (nat set \<Rightarrow> nat set) \<Rightarrow> (nat \<times> nat set) list \<Rightarrow> (nat \<times> nat set) list" where
  "update_ids type_id f m = map (\<lambda>entry. if fst entry = type_id then (fst entry, f (snd entry)) else entry) m"

definition addId :: "Types \<Rightarrow> nat \<Rightarrow> nat \<Rightarrow> exn + (bool \<times> Types)" where
  "addId t type_id i =
     (if ValidTypeId t type_id then
        (case at_map (ids_of_type t) type_id of
           Inl e \<Rightarrow> Inl e
         | Inr _ \<Rightarrow> Inr (True, t\<lparr>ids_of_type := update_ids type_id (insert i) (ids_of_type t)\<rparr>))
      else Inr (False, t))"

definition removeId :: "Types \<Rightarrow> nat \<Rightarrow> nat \<Rightarrow> exn + (bool \<times> Types)" where
  "removeId t type_id i =
     (if ValidTypeId t type_id then
        (case at_map (ids_of_type t) type_id of
           Inl e \<Rightarrow> Inl e
         | Inr _ \<Rightarrow> Inr (True, t\<lparr>ids_of_type := update_ids type_id (\<lambda>s. s - {i}) (ids_of_type t)\<rparr>))
      else Inr (False, t))"

definition addTypeId :: "Types \<Rightarrow> string \<Rightarrow> nat \<Rightarrow> bool \<times> Types" where
  "addTypeId t token token_id =
     (case map_of (type_to_id t) token of
        Some _ \<Rightarrow> (False, t)
      | None \<Rightarrow>
          (case map_of (id_to_type t) token_id of
             Some _ \<Rightarrow> (False, t)
           | None \<Rightarrow>
               (False, t\<lparr>type_to_id := emplace token token_id (type_to_id t),
                         id_to_type := emplace token_id token (id_to_type t),
                         ids_of_type := emplace token_id {} (ids_of_type t)\<rparr>)))"

section \<open>simdjson documents\<close>

text \<open>
  The parsed payload (\<^verbatim>\<open>simdjson::dom\<close>). simdjson is a library the engine links
  against: an element is one of the eight \<^verbatim>\<open>element_type\<close>s, an \<^verbatim>\<open>UINT64\<close> is a
  number above \<^verbatim>\<open>INT64_MAX\<close>, and a typed conversion of an element of another type
  throws \<^verbatim>\<open>simdjson_error\<close>.
\<close>

datatype element =
    INT64 int
  | UINT64 nat
  | DOUBLE double
  | STRING string
  | BOOL bool
  | NULL_VALUE
  | OBJECT "(string \<times> element) list"
  | ARRAY "element list"

text \<open>\<^verbatim>\<open>int64_t(child)\<close>, that is \<^verbatim>\<open>get_int64\<close>: an unsigned number that does not fit is refused.\<close>

fun to_int64 :: "element \<Rightarrow> exn + int" where
  "to_int64 (INT64 i) = Inr i"
| "to_int64 (UINT64 u) = (if u > 2 ^ 63 - 1 then Inl simdjson_error else Inr (int u))"
| "to_int64 _ = Inl simdjson_error"

text \<open>\<^verbatim>\<open>double(child)\<close>, that is \<^verbatim>\<open>get_double\<close>: integers are converted.\<close>

fun to_double :: "element \<Rightarrow> exn + double" where
  "to_double (DOUBLE d) = Inr d"
| "to_double (INT64 i) = Inr (Double_of_int i)"
| "to_double (UINT64 u) = Inr (Double_of_int (int u))"
| "to_double _ = Inl simdjson_error"

fun to_string :: "element \<Rightarrow> exn + string" where
  "to_string (STRING s) = Inr s"
| "to_string _ = Inl simdjson_error"

fun to_bool :: "element \<Rightarrow> exn + bool" where
  "to_bool (BOOL b) = Inr b"
| "to_bool _ = Inl simdjson_error"

text \<open>The loop \<^verbatim>\<open>for (dom::element child : array) v.emplace_back(T(child))\<close>.\<close>

fun convert_children :: "(element \<Rightarrow> exn + 'a) \<Rightarrow> element list \<Rightarrow> exn + 'a list" where
  "convert_children conv [] = Inr []"
| "convert_children conv (child # rest) =
     (case conv child of
        Inl e \<Rightarrow> Inl e
      | Inr v \<Rightarrow> (case convert_children conv rest of Inl e \<Rightarrow> Inl e | Inr vs \<Rightarrow> Inr (v # vs)))"

text \<open>
  The \<^verbatim>\<open>ARRAY\<close> case of \<^verbatim>\<open>convertProperties\<close>: the type of the first element picks
  the vector; \<open>None\<close> is the branch that inserts nothing.
\<close>

fun convert_array :: "element list \<Rightarrow> exn + any option" where
  "convert_array [] = Inr None"
| "convert_array (ARRAY a # rest) = Inr None"
| "convert_array (OBJECT ob # rest) = Inr None"
| "convert_array (INT64 i # rest) =
     (case convert_children to_int64 (INT64 i # rest) of
        Inl e \<Rightarrow> Inl e | Inr int_vector \<Rightarrow> Inr (Some (Int64_vector int_vector)))"
| "convert_array (UINT64 u # rest) =
     (case convert_children to_int64 (UINT64 u # rest) of
        Inl e \<Rightarrow> Inl e | Inr int_vector \<Rightarrow> Inr (Some (Int64_vector int_vector)))"
| "convert_array (DOUBLE d # rest) =
     (case convert_children to_double (DOUBLE d # rest) of
        Inl e \<Rightarrow> Inl e | Inr double_vector \<Rightarrow> Inr (Some (Double_vector double_vector)))"
| "convert_array (STRING s # rest) =
     (case convert_children to_string (STRING s # rest) of
        Inl e \<Rightarrow> Inl e | Inr string_vector \<Rightarrow> Inr (Some (String_vector string_vector)))"
| "convert_array (BOOL b # rest) =
     (case convert_children to_bool (BOOL b # rest) of
        Inl e \<Rightarrow> Inl e | Inr bool_vector \<Rightarrow> Inr (Some (Bool_vector bool_vector)))"
| "convert_array (NULL_VALUE # rest) = Inr None"

fun convertProperties :: "property_map \<Rightarrow> (string \<times> element) list \<Rightarrow> exn + property_map" where
  "convertProperties values [] = Inr values"
| "convertProperties values ((property, INT64 i) # object) =
     convertProperties (map_insert (property, Int64_any i) values) object"
| "convertProperties values ((property, UINT64 u) # object) =
     (case to_int64 (UINT64 u) of
        Inl e \<Rightarrow> Inl e
      | Inr i \<Rightarrow> convertProperties (map_insert (property, Int64_any i) values) object)"
| "convertProperties values ((property, DOUBLE d) # object) =
     convertProperties (map_insert (property, Double_any d) values) object"
| "convertProperties values ((property, STRING str) # object) =
     convertProperties (map_insert (property, String_any str) values) object"
| "convertProperties values ((property, BOOL b) # object) =
     convertProperties (map_insert (property, Bool_any b) values) object"
| "convertProperties values ((property, NULL_VALUE) # object) =
     convertProperties values object"
| "convertProperties values ((property, OBJECT ob) # object) =
     (case convertProperties [] ob of
        Inl e \<Rightarrow> Inl e
      | Inr nested \<Rightarrow> convertProperties (map_insert (property, Object_any nested) values) object)"
| "convertProperties values ((property, ARRAY array) # object) =
     (case convert_array array of
        Inl e \<Rightarrow> Inl e
      | Inr None \<Rightarrow> convertProperties values object
      | Inr (Some v) \<Rightarrow> convertProperties (map_insert (property, v) values) object)"

section \<open>The shard\<close>

text \<open>
  \<^verbatim>\<open>Ids.h\<close>, \<^verbatim>\<open>Group.h\<close> and \<^verbatim>\<open>Direction.h\<close> are included by \<^verbatim>\<open>Shard.h\<close>; their
  declarations are read off the uses in \<^verbatim>\<open>Shard.cpp\<close>: \<^verbatim>\<open>Ids(node_id, rel_id)\<close>,
  \<^verbatim>\<open>Group(rel_type_id, ids)\<close> and the enumerators \<^verbatim>\<open>IN\<close>, \<^verbatim>\<open>OUT\<close>, \<^verbatim>\<open>BOTH\<close>.
\<close>

record Ids =
  node_id :: nat
  rel_id :: nat

record Group =
  rel_type_id :: nat
  ids :: "Ids list"

datatype Direction = IN | OUT | BOTH

text \<open>
  The members of \<^verbatim>\<open>Shard\<close>. \<open>parser\<close> is \<^verbatim>\<open>parser.parse(text).get(object)\<close>:
  \<open>None\<close> is an error code, \<open>Some\<close> the object of the document. \<open>eval\<close> is the
  operand order the compiler chose for \<^verbatim>\<open>deleteProperty\<close>.
\<close>

record Shard =
  cpus :: nat
  shard_id :: nat
  parser :: "string \<Rightarrow> (string \<times> element) list option"
  eval :: eval_order
  node_keys :: "(string \<times> (string \<times> nat) list) list"
  nodes :: "Node list"
  relationships :: "Relationship list"
  outgoing_relationships :: "Group list list"
  incoming_relationships :: "Group list list"
  deleted_nodes :: "nat set"
  deleted_relationships :: "nat set"
  node_types :: Types
  relationship_types :: Types

text \<open>The constructor \<^verbatim>\<open>Shard(cpus)\<close> on the core \<open>sid\<close>.\<close>

definition Shard_new :: "nat \<Rightarrow> nat \<Rightarrow> (string \<Rightarrow> (string \<times> element) list option) \<Rightarrow> eval_order \<Rightarrow> Shard" where
  "Shard_new c sid p ord =
     \<lparr>cpus = c, shard_id = sid, parser = p, eval = ord, node_keys = [],
      nodes = [Node_zero], relationships = [Relationship_zero],
      outgoing_relationships = [[]], incoming_relationships = [[]],
      deleted_nodes = {}, deleted_relationships = {},
      node_types = Types_new, relationship_types = Types_new\<rparr>"

definition SHIFTED_BITS :: nat where "SHIFTED_BITS = 8"
definition MASK :: nat where "MASK = 255"

definition externalToInternal :: "nat \<Rightarrow> nat" where
  "externalToInternal i = i div 2 ^ SHIFTED_BITS"

definition internalToExternal :: "Shard \<Rightarrow> nat \<Rightarrow> nat" where
  "internalToExternal s internal_id = (internal_id * 2 ^ SHIFTED_BITS + shard_id s) mod 2 ^ 64"

definition CalculateShardId :: "nat \<Rightarrow> nat" where
  "CalculateShardId i = (if i < MASK then 0 else i mod 2 ^ 8)"

definition ValidNodeId :: "Shard \<Rightarrow> nat \<Rightarrow> bool" where
  "ValidNodeId s i =
     (i > 0 \<and> externalToInternal i < length (nodes s) \<and> internalToExternal s (externalToInternal i) = i)"

definition ValidRelationshipId :: "Shard \<Rightarrow> nat \<Rightarrow> bool" where
  "ValidRelationshipId s i =
     (i > 0 \<and> externalToInternal i < length (relationships s)
      \<and> internalToExternal s (externalToInternal i) = i)"

definition RelationshipTypeInsert :: "Shard \<Rightarrow> string \<Rightarrow> nat \<Rightarrow> bool \<times> Shard" where
  "RelationshipTypeInsert s type type_id =
     (let r = addTypeId (relationship_types s) type type_id
      in (fst r, s\<lparr>relationship_types := snd r\<rparr>))"

definition NodeTypeInsert :: "Shard \<Rightarrow> string \<Rightarrow> nat \<Rightarrow> bool \<times> Shard" where
  "NodeTypeInsert s type type_id =
     (let s1 = s\<lparr>node_keys := emplace type [] (node_keys s)\<rparr>;
          r = addTypeId (node_types s1) type type_id
      in (fst r, s1\<lparr>node_types := snd r\<rparr>))"

subsection \<open>Nodes\<close>

text \<open>
  The block every \<^verbatim>\<open>...FromJson\<close> function and \<^verbatim>\<open>NodeAdd\<close> repeats: an empty
  payload leaves \<open>values\<close> as they are, a payload that does not parse to an object
  gives \<open>None\<close> (the function then returns its error value), and the conversion
  may throw.
\<close>

definition parse_properties :: "Shard \<Rightarrow> property_map \<Rightarrow> string \<Rightarrow> exn + property_map option" where
  "parse_properties s values payload =
     (if payload \<noteq> [] then
        (case parser s payload of
           None \<Rightarrow> Inr None
         | Some object \<Rightarrow>
             (case convertProperties values object of Inl e \<Rightarrow> Inl e | Inr values' \<Rightarrow> Inr (Some values')))
      else Inr (Some values))"

text \<open>\<^verbatim>\<open>type_search->second.insert({key, external_id})\<close> on the index of one type.\<close>

definition node_keys_insert :: "string \<Rightarrow> string \<Rightarrow> nat \<Rightarrow> (string \<times> (string \<times> nat) list) list \<Rightarrow> (string \<times> (string \<times> nat) list) list" where
  "node_keys_insert type key external_id nk =
     map (\<lambda>entry. if fst entry = type then (fst entry, emplace key external_id (snd entry)) else entry) nk"

definition node_keys_erase :: "string \<Rightarrow> string \<Rightarrow> (string \<times> (string \<times> nat) list) list \<Rightarrow> (string \<times> (string \<times> nat) list) list" where
  "node_keys_erase type key nk =
     map (\<lambda>entry. if fst entry = type then (fst entry, filter (\<lambda>kv. fst kv \<noteq> key) (snd entry)) else entry) nk"

text \<open>
  The part of \<^verbatim>\<open>NodeAddEmpty\<close> and \<^verbatim>\<open>NodeAdd\<close> after the checks: take the smallest
  deleted slot or append, register the id with the type, index the key.
\<close>

definition NodeAdd_store :: "Shard \<Rightarrow> string \<Rightarrow> nat \<Rightarrow> string \<Rightarrow> property_map \<Rightarrow> exn + (nat \<times> Shard)" where
  "NodeAdd_store s type node_type key values =
     (if deleted_nodes s = {} then
        (let internal_id = length (nodes s);
             external_id = internalToExternal s internal_id;
             s1 = s\<lparr>nodes := nodes s @ [Node_new external_id node_type key values],
                    outgoing_relationships := outgoing_relationships s @ [[]],
                    incoming_relationships := incoming_relationships s @ [[]]\<rparr>
         in case addId (node_types s1) node_type external_id of
              Inl e \<Rightarrow> Inl e
            | Inr r \<Rightarrow>
                Inr (external_id,
                     s1\<lparr>node_types := snd r,
                        node_keys := node_keys_insert type key external_id (node_keys s1)\<rparr>))
      else
        (let internal_id = Min (deleted_nodes s);
             external_id = internalToExternal s internal_id
         in if internal_id < length (nodes s) then
              (let s1 = s\<lparr>nodes := (nodes s)[internal_id := Node_new external_id node_type key values],
                          deleted_nodes := deleted_nodes s - {internal_id}\<rparr>
               in case addId (node_types s1) node_type external_id of
                    Inl e \<Rightarrow> Inl e
                  | Inr r \<Rightarrow>
                      Inr (external_id,
                           s1\<lparr>node_types := snd r,
                              node_keys := node_keys_insert type key external_id (node_keys s1)\<rparr>))
            else Inl out_of_range))"

definition NodeAddEmpty :: "Shard \<Rightarrow> string \<Rightarrow> nat \<Rightarrow> string \<Rightarrow> exn + (nat \<times> Shard)" where
  "NodeAddEmpty s type node_type key =
     (case map_of (node_keys s) type of
        None \<Rightarrow> Inr (0, s)
      | Some keys \<Rightarrow>
          (case map_of keys key of
             Some _ \<Rightarrow> Inr (0, s)
           | None \<Rightarrow> NodeAdd_store s type node_type key []))"

definition NodeAdd :: "Shard \<Rightarrow> string \<Rightarrow> nat \<Rightarrow> string \<Rightarrow> string \<Rightarrow> exn + (nat \<times> Shard)" where
  "NodeAdd s type node_type key properties =
     (case map_of (node_keys s) type of
        None \<Rightarrow> Inr (0, s)
      | Some keys \<Rightarrow>
          (case map_of keys key of
             Some _ \<Rightarrow> Inr (0, s)
           | None \<Rightarrow>
               (case parse_properties s [] properties of
                  Inl e \<Rightarrow> Inl e
                | Inr None \<Rightarrow> Inr (0, s)
                | Inr (Some values) \<Rightarrow> NodeAdd_store s type node_type key values)))"

definition NodeGetID :: "Shard \<Rightarrow> string \<Rightarrow> string \<Rightarrow> nat" where
  "NodeGetID s type key =
     (case map_of (node_keys s) type of
        None \<Rightarrow> 0
      | Some keys \<Rightarrow> (case map_of keys key of Some i \<Rightarrow> i | None \<Rightarrow> 0))"

definition NodeGet :: "Shard \<Rightarrow> nat \<Rightarrow> exn + Node" where
  "NodeGet s i =
     (if ValidNodeId s i then at (nodes s) (externalToInternal i) else at (nodes s) 0)"

subsection \<open>Adjacency groups\<close>

text \<open>\<^verbatim>\<open>find_if\<close> for the group of a type, and a change of the group found.\<close>

definition find_group :: "nat \<Rightarrow> Group list \<Rightarrow> Group option" where
  "find_group t groups = find (\<lambda>g. rel_type_id g = t) groups"

fun modify_group :: "nat \<Rightarrow> (Ids list \<Rightarrow> Ids list) \<Rightarrow> Group list \<Rightarrow> Group list" where
  "modify_group t f [] = []"
| "modify_group t f (g # gs) =
     (if rel_type_id g = t then g\<lparr>ids := f (ids g)\<rparr> # gs else g # modify_group t f gs)"

text \<open>
  \<^verbatim>\<open>if (group != end) group->ids.emplace_back(n, r) else groups.emplace_back(Group(t, {Ids(n, r)}))\<close>
\<close>

definition add_to_group :: "nat \<Rightarrow> Ids \<Rightarrow> Group list \<Rightarrow> Group list" where
  "add_to_group t entry groups =
     (case find_group t groups of
        Some _ \<Rightarrow> modify_group t (\<lambda>l. l @ [entry]) groups
      | None \<Rightarrow> groups @ [\<lparr>rel_type_id = t, ids = [entry]\<rparr>])"

text \<open>\<^verbatim>\<open>if (group != end) group->ids.erase(remove_if(..., pred), end)\<close>\<close>

definition remove_from_group :: "nat \<Rightarrow> (Ids \<Rightarrow> bool) \<Rightarrow> Group list \<Rightarrow> Group list" where
  "remove_from_group t pred groups = modify_group t (filter (\<lambda>entry. \<not> pred entry)) groups"

subsection \<open>Removing a node\<close>

text \<open>
  The inner loop over the outgoing entries of one group in \<^verbatim>\<open>NodeRemove\<close>: the
  relationship's slot is recycled under its internal index, and the entry of a peer on
  this shard is taken out of the peer's incoming group.
\<close>

fun NodeRemove_outgoing_ids :: "nat \<Rightarrow> Ids list \<Rightarrow> Shard \<Rightarrow> exn + Shard" where
  "NodeRemove_outgoing_ids relType [] s = Inr s"
| "NodeRemove_outgoing_ids relType (entry # rest) s =
     (let internal_rel_id = externalToInternal (rel_id entry);
          s1 = s\<lparr>deleted_relationships := insert internal_rel_id (deleted_relationships s)\<rparr>
      in case removeId (relationship_types s1) relType (rel_id entry) of
           Inl e \<Rightarrow> Inl e
         | Inr r \<Rightarrow>
             (let s2 = s1\<lparr>relationship_types := snd r\<rparr>
              in if internal_rel_id < length (relationships s2) then
                   (let s3 = s2\<lparr>relationships := (relationships s2)[internal_rel_id := Relationship_zero]\<rparr>
                    in if CalculateShardId (node_id entry) = shard_id s3 then
                         (let other_internal_id = externalToInternal (node_id entry)
                          in if other_internal_id < length (incoming_relationships s3) then
                               NodeRemove_outgoing_ids relType rest
                                 (s3\<lparr>incoming_relationships :=
                                       (incoming_relationships s3)[other_internal_id :=
                                          remove_from_group relType (\<lambda>x. rel_id x = rel_id entry)
                                            (incoming_relationships s3 ! other_internal_id)]\<rparr>)
                             else Inl out_of_range)
                       else NodeRemove_outgoing_ids relType rest s3)
                 else Inl out_of_range))"

fun NodeRemove_outgoing :: "Group list \<Rightarrow> Shard \<Rightarrow> exn + Shard" where
  "NodeRemove_outgoing [] s = Inr s"
| "NodeRemove_outgoing (types # rest) s =
     (case NodeRemove_outgoing_ids (rel_type_id types) (ids types) s of
        Inl e \<Rightarrow> Inl e
      | Inr s' \<Rightarrow> NodeRemove_outgoing rest s')"

text \<open>
  The inner loop over the incoming entries: here the source adds \<^verbatim>\<open>ids.rel_id\<close>, the
  external id, to \<^verbatim>\<open>deleted_relationships\<close>.
\<close>

fun NodeRemove_incoming_ids :: "nat \<Rightarrow> nat \<Rightarrow> Ids list \<Rightarrow> Shard \<Rightarrow> exn + Shard" where
  "NodeRemove_incoming_ids external_id relType [] s = Inr s"
| "NodeRemove_incoming_ids external_id relType (entry # rest) s =
     (if node_id entry \<noteq> external_id then
        (let s1 = s\<lparr>deleted_relationships := insert (rel_id entry) (deleted_relationships s)\<rparr>
         in case removeId (relationship_types s1) relType (rel_id entry) of
              Inl e \<Rightarrow> Inl e
            | Inr r \<Rightarrow>
                (let s2 = s1\<lparr>relationship_types := snd r\<rparr>;
                     internal_rel_id = externalToInternal (rel_id entry)
                 in if internal_rel_id < length (relationships s2) then
                      (let s3 = s2\<lparr>relationships := (relationships s2)[internal_rel_id := Relationship_zero]\<rparr>
                       in if CalculateShardId (node_id entry) = shard_id s3 then
                            (let other_internal_id = externalToInternal (node_id entry)
                             in if other_internal_id < length (outgoing_relationships s3) then
                                  NodeRemove_incoming_ids external_id relType rest
                                    (s3\<lparr>outgoing_relationships :=
                                          (outgoing_relationships s3)[other_internal_id :=
                                             remove_from_group relType (\<lambda>x. rel_id x = rel_id entry)
                                               (outgoing_relationships s3 ! other_internal_id)]\<rparr>)
                                else Inl out_of_range)
                          else NodeRemove_incoming_ids external_id relType rest s3)
                    else Inl out_of_range))
      else NodeRemove_incoming_ids external_id relType rest s)"

fun NodeRemove_incoming :: "nat \<Rightarrow> Group list \<Rightarrow> Shard \<Rightarrow> exn + Shard" where
  "NodeRemove_incoming external_id [] s = Inr s"
| "NodeRemove_incoming external_id (types # rest) s =
     (case NodeRemove_incoming_ids external_id (rel_type_id types) (ids types) s of
        Inl e \<Rightarrow> Inl e
      | Inr s' \<Rightarrow> NodeRemove_incoming external_id rest s')"

text \<open>
  \<^verbatim>\<open>NodeRemove(type, key)\<close>. \<^verbatim>\<open>key_search->second\<close> is read without a test of
  \<^verbatim>\<open>key_search\<close> against \<^verbatim>\<open>end()\<close>.
\<close>

definition NodeRemove :: "Shard \<Rightarrow> string \<Rightarrow> string \<Rightarrow> exn + (bool \<times> Shard)" where
  "NodeRemove s type key =
     (case map_of (node_keys s) type of
        None \<Rightarrow> Inr (False, s)
      | Some keys \<Rightarrow>
          (let node_type = getTypeId (node_types s) type
           in case map_of keys key of
                None \<Rightarrow> Inl end_iterator_dereference
              | Some external_id \<Rightarrow>
                  (let internal_id = externalToInternal external_id
                   in if internal_id > 0 then
                        (if internal_id < length (nodes s) then
                           (let s1 = s\<lparr>node_keys := node_keys_erase type key (node_keys s),
                                       nodes := (nodes s)[internal_id := Node_zero],
                                       deleted_nodes := insert internal_id (deleted_nodes s)\<rparr>
                            in case removeId (node_types s1) node_type external_id of
                                 Inl e \<Rightarrow> Inl e
                               | Inr r \<Rightarrow>
                                   (let s2 = s1\<lparr>node_types := snd r\<rparr>
                                    in case at (outgoing_relationships s2) internal_id of
                                         Inl e \<Rightarrow> Inl e
                                       | Inr out_groups \<Rightarrow>
                                           (case NodeRemove_outgoing out_groups s2 of
                                              Inl e \<Rightarrow> Inl e
                                            | Inr s3 \<Rightarrow>
                                                (let s4 = s3\<lparr>outgoing_relationships :=
                                                              (outgoing_relationships s3)[internal_id := []]\<rparr>
                                                 in case at (incoming_relationships s4) internal_id of
                                                      Inl e \<Rightarrow> Inl e
                                                    | Inr in_groups \<Rightarrow>
                                                        (case NodeRemove_incoming external_id in_groups s4 of
                                                           Inl e \<Rightarrow> Inl e
                                                         | Inr s5 \<Rightarrow>
                                                             Inr (True,
                                                                  s5\<lparr>incoming_relationships :=
                                                                       (incoming_relationships s5)[internal_id := []]\<rparr>))))))
                         else Inl out_of_range)
                      else Inr (False, s))))"

text \<open>\<^verbatim>\<open>NodeRemove(id)\<close>\<close>

definition NodeRemove_id :: "Shard \<Rightarrow> nat \<Rightarrow> exn + (bool \<times> Shard)" where
  "NodeRemove_id s i =
     (if ValidNodeId s i then
        (let node = nodes s ! externalToInternal i
         in case getType (node_types s) (Node_type_id node) of
              Inl e \<Rightarrow> Inl e
            | Inr type \<Rightarrow> NodeRemove s type (Node_key node))
      else Inr (False, s))"

subsection \<open>Node properties\<close>

definition NodePropertyDelete :: "Shard \<Rightarrow> nat \<Rightarrow> string \<Rightarrow> bool \<times> Shard" where
  "NodePropertyDelete s i property =
     (if ValidNodeId s i then
        (let internal_id = externalToInternal i;
             r = Node_deleteProperty (eval s) property (nodes s ! internal_id)
         in (fst r, s\<lparr>nodes := (nodes s)[internal_id := snd r]\<rparr>))
      else (False, s))"

definition NodePropertiesGet :: "Shard \<Rightarrow> nat \<Rightarrow> property_map" where
  "NodePropertiesGet s i =
     (if ValidNodeId s i then getProperties (Node_properties (nodes s ! externalToInternal i)) else [])"

text \<open>\<^verbatim>\<open>value.merge(values)\<close>: the stored properties are merged into the argument.\<close>

definition NodePropertiesSet :: "Shard \<Rightarrow> nat \<Rightarrow> property_map \<Rightarrow> bool \<times> Shard" where
  "NodePropertiesSet s i v =
     (if ValidNodeId s i then
        (let internal_id = externalToInternal i;
             values = getProperties (Node_properties (nodes s ! internal_id));
             merged = map_merge v values
         in (True, s\<lparr>nodes := (nodes s)[internal_id :=
                        (nodes s ! internal_id)\<lparr>Node_properties := setProperties merged\<rparr>]\<rparr>))
      else (False, s))"

definition NodePropertiesSetFromJson :: "Shard \<Rightarrow> nat \<Rightarrow> string \<Rightarrow> exn + (bool \<times> Shard)" where
  "NodePropertiesSetFromJson s i v =
     (if ValidNodeId s i then
        (let internal_id = externalToInternal i;
             values = getProperties (Node_properties (nodes s ! internal_id))
         in case parse_properties s values v of
              Inl e \<Rightarrow> Inl e
            | Inr None \<Rightarrow> Inr (False, s)
            | Inr (Some values') \<Rightarrow>
                Inr (True, s\<lparr>nodes := (nodes s)[internal_id :=
                              (nodes s ! internal_id)\<lparr>Node_properties := setProperties values'\<rparr>]\<rparr>))
      else Inr (False, s))"

definition NodePropertiesReset :: "Shard \<Rightarrow> nat \<Rightarrow> property_map \<Rightarrow> bool \<times> Shard" where
  "NodePropertiesReset s i v =
     (if ValidNodeId s i then
        (let internal_id = externalToInternal i
         in (True, s\<lparr>nodes := (nodes s)[internal_id :=
                        (nodes s ! internal_id)\<lparr>Node_properties := setProperties v\<rparr>]\<rparr>))
      else (False, s))"

definition NodePropertiesResetFromJson :: "Shard \<Rightarrow> nat \<Rightarrow> string \<Rightarrow> exn + (bool \<times> Shard)" where
  "NodePropertiesResetFromJson s i v =
     (if ValidNodeId s i then
        (case parse_properties s [] v of
           Inl e \<Rightarrow> Inl e
         | Inr None \<Rightarrow> Inr (False, s)
         | Inr (Some values) \<Rightarrow>
             (let internal_id = externalToInternal i
              in Inr (True, s\<lparr>nodes := (nodes s)[internal_id :=
                               (nodes s ! internal_id)\<lparr>Node_properties := setProperties values\<rparr>]\<rparr>)))
      else Inr (False, s))"

subsection \<open>Relationships\<close>

text \<open>
  The head of every relationship add: reuse the smallest deleted slot or append. The
  result is the external id and the shard.
\<close>

definition Relationship_store :: "Shard \<Rightarrow> nat \<Rightarrow> nat \<Rightarrow> nat \<Rightarrow> property_map \<Rightarrow> exn + (nat \<times> Shard)" where
  "Relationship_store s rel_type id1 id2 values =
     (if deleted_relationships s \<noteq> {} then
        (let internal_id = Min (deleted_relationships s);
             external_id = internalToExternal s internal_id
         in if internal_id < length (relationships s) then
              Inr (external_id,
                   s\<lparr>relationships := (relationships s)[internal_id :=
                        Relationship_new external_id id1 id2 rel_type values],
                     deleted_relationships := deleted_relationships s - {internal_id}\<rparr>)
            else Inl out_of_range)
      else
        (let internal_id = length (relationships s);
             external_id = internalToExternal s internal_id
         in Inr (external_id,
                 s\<lparr>relationships := relationships s @ [Relationship_new external_id id1 id2 rel_type values]\<rparr>)))"

definition RelationshipAddEmptySameShard :: "Shard \<Rightarrow> nat \<Rightarrow> nat \<Rightarrow> nat \<Rightarrow> exn + (nat \<times> Shard)" where
  "RelationshipAddEmptySameShard s rel_type id1 id2 =
     (let internal_id1 = externalToInternal id1;
          internal_id2 = externalToInternal id2
      in if ValidNodeId s id1 \<and> ValidNodeId s id2 then
           (case Relationship_store s rel_type id1 id2 [] of
              Inl e \<Rightarrow> Inl e
            | Inr (external_id, s1) \<Rightarrow>
                (if internal_id1 < length (outgoing_relationships s1) then
                   (let s2 = s1\<lparr>outgoing_relationships := (outgoing_relationships s1)[internal_id1 :=
                                   add_to_group rel_type \<lparr>node_id = id2, rel_id = external_id\<rparr>
                                     (outgoing_relationships s1 ! internal_id1)]\<rparr>
                    in if internal_id2 < length (incoming_relationships s2) then
                         (let s3 = s2\<lparr>incoming_relationships := (incoming_relationships s2)[internal_id2 :=
                                         add_to_group rel_type \<lparr>node_id = id1, rel_id = external_id\<rparr>
                                           (incoming_relationships s2 ! internal_id2)]\<rparr>
                          in case addId (relationship_types s3) rel_type external_id of
                               Inl e \<Rightarrow> Inl e
                             | Inr r \<Rightarrow> Inr (external_id, s3\<lparr>relationship_types := snd r\<rparr>))
                       else Inl out_of_range)
                 else Inl out_of_range))
         else Inr (0, s))"

definition RelationshipAddEmptyToOutgoing :: "Shard \<Rightarrow> nat \<Rightarrow> nat \<Rightarrow> nat \<Rightarrow> exn + (nat \<times> Shard)" where
  "RelationshipAddEmptyToOutgoing s rel_type id1 id2 =
     (case Relationship_store s rel_type id1 id2 [] of
        Inl e \<Rightarrow> Inl e
      | Inr (external_id, s1) \<Rightarrow>
          (let internal_id1 = externalToInternal id1
           in if internal_id1 < length (outgoing_relationships s1) then
                (let s2 = s1\<lparr>outgoing_relationships := (outgoing_relationships s1)[internal_id1 :=
                                add_to_group rel_type \<lparr>node_id = id2, rel_id = external_id\<rparr>
                                  (outgoing_relationships s1 ! internal_id1)]\<rparr>
                 in case addId (relationship_types s2) rel_type external_id of
                      Inl e \<Rightarrow> Inl e
                    | Inr r \<Rightarrow> Inr (external_id, s2\<lparr>relationship_types := snd r\<rparr>))
              else Inl out_of_range))"

definition RelationshipAddToIncoming :: "Shard \<Rightarrow> nat \<Rightarrow> nat \<Rightarrow> nat \<Rightarrow> nat \<Rightarrow> exn + (nat \<times> Shard)" where
  "RelationshipAddToIncoming s rel_type r_id id1 id2 =
     (let internal_id2 = externalToInternal id2
      in if internal_id2 < length (incoming_relationships s) then
           Inr (r_id,
                s\<lparr>incoming_relationships := (incoming_relationships s)[internal_id2 :=
                     add_to_group rel_type \<lparr>node_id = id1, rel_id = r_id\<rparr>
                       (incoming_relationships s ! internal_id2)]\<rparr>)
         else Inl out_of_range)"

subsection \<open>Relationship properties\<close>

definition RelationshipPropertyDelete :: "Shard \<Rightarrow> nat \<Rightarrow> string \<Rightarrow> bool \<times> Shard" where
  "RelationshipPropertyDelete s i property =
     (if ValidRelationshipId s i then
        (let internal_id = externalToInternal i;
             r = Relationship_deleteProperty (eval s) property (relationships s ! internal_id)
         in (fst r, s\<lparr>relationships := (relationships s)[internal_id := snd r]\<rparr>))
      else (False, s))"

definition RelationshipPropertiesSet :: "Shard \<Rightarrow> nat \<Rightarrow> property_map \<Rightarrow> bool \<times> Shard" where
  "RelationshipPropertiesSet s i v =
     (if ValidRelationshipId s i then
        (let internal_id = externalToInternal i;
             values = getProperties (Rel_properties (relationships s ! internal_id));
             merged = map_merge v values
         in (True, s\<lparr>relationships := (relationships s)[internal_id :=
                        (relationships s ! internal_id)\<lparr>Rel_properties := setProperties merged\<rparr>]\<rparr>))
      else (False, s))"

text \<open>The two functions below end in \<^verbatim>\<open>nodes.at(internal_id).setProperties(values)\<close>.\<close>

definition RelationshipPropertiesSetFromJson :: "Shard \<Rightarrow> nat \<Rightarrow> string \<Rightarrow> exn + (bool \<times> Shard)" where
  "RelationshipPropertiesSetFromJson s i v =
     (if ValidRelationshipId s i then
        (let internal_id = externalToInternal i;
             values = getProperties (Rel_properties (relationships s ! internal_id))
         in case parse_properties s values v of
              Inl e \<Rightarrow> Inl e
            | Inr None \<Rightarrow> Inr (False, s)
            | Inr (Some values') \<Rightarrow>
                (if internal_id < length (nodes s) then
                   Inr (True, s\<lparr>nodes := (nodes s)[internal_id :=
                                 (nodes s ! internal_id)\<lparr>Node_properties := setProperties values'\<rparr>]\<rparr>)
                 else Inl out_of_range))
      else Inr (False, s))"

definition RelationshipPropertiesReset :: "Shard \<Rightarrow> nat \<Rightarrow> property_map \<Rightarrow> bool \<times> Shard" where
  "RelationshipPropertiesReset s i v =
     (if ValidRelationshipId s i then
        (let internal_id = externalToInternal i
         in (True, s\<lparr>relationships := (relationships s)[internal_id :=
                        (relationships s ! internal_id)\<lparr>Rel_properties := setProperties v\<rparr>]\<rparr>))
      else (False, s))"

definition RelationshipPropertiesResetFromJson :: "Shard \<Rightarrow> nat \<Rightarrow> string \<Rightarrow> exn + (bool \<times> Shard)" where
  "RelationshipPropertiesResetFromJson s i v =
     (if ValidRelationshipId s i then
        (let internal_id = externalToInternal i
         in case parse_properties s [] v of
              Inl e \<Rightarrow> Inl e
            | Inr None \<Rightarrow> Inr (False, s)
            | Inr (Some values) \<Rightarrow>
                (if internal_id < length (nodes s) then
                   Inr (True, s\<lparr>nodes := (nodes s)[internal_id :=
                                 (nodes s ! internal_id)\<lparr>Node_properties := setProperties values\<rparr>]\<rparr>)
                 else Inl out_of_range))
      else Inr (False, s))"

subsection \<open>Degree and traversal\<close>

text \<open>\<^verbatim>\<open>NodeGetDegree(id)\<close>: the sizes of the two vectors of groups.\<close>

definition NodeGetDegree :: "Shard \<Rightarrow> nat \<Rightarrow> exn + nat" where
  "NodeGetDegree s i =
     (if ValidNodeId s i then
        (let internal_id = externalToInternal i
         in case at (outgoing_relationships s) internal_id of
              Inl e \<Rightarrow> Inl e
            | Inr out_groups \<Rightarrow>
                (case at (incoming_relationships s) internal_id of
                   Inl e \<Rightarrow> Inl e
                 | Inr in_groups \<Rightarrow> Inr (length out_groups + length in_groups)))
      else Inr 0)"

text \<open>\<^verbatim>\<open>NodeGetDegree(id, direction)\<close>: the sum of the sizes of the groups' id lists.\<close>

definition NodeGetDegree_dir :: "Shard \<Rightarrow> nat \<Rightarrow> Direction \<Rightarrow> exn + nat" where
  "NodeGetDegree_dir s i direction =
     (if ValidNodeId s i then
        (let internal_id = externalToInternal i
         in case (if direction \<noteq> IN then at (outgoing_relationships s) internal_id else Inr []) of
              Inl e \<Rightarrow> Inl e
            | Inr out_groups \<Rightarrow>
                (case (if direction \<noteq> OUT then at (incoming_relationships s) internal_id else Inr []) of
                   Inl e \<Rightarrow> Inl e
                 | Inr in_groups \<Rightarrow>
                     Inr (sum_list (map (\<lambda>g. length (ids g)) out_groups)
                          + sum_list (map (\<lambda>g. length (ids g)) in_groups))))
      else Inr 0)"

text \<open>
  The loop over the requested type names of the overloads that take
  \<^verbatim>\<open>rel_types\<close>; the vector of groups is fetched with \<^verbatim>\<open>at\<close> in each round.
\<close>

fun collect_types :: "Types \<Rightarrow> Group list list \<Rightarrow> nat \<Rightarrow> string list \<Rightarrow> exn + Ids list" where
  "collect_types t adjacency internal_id [] = Inr []"
| "collect_types t adjacency internal_id (rel_type # rest) =
     (let type_id = getTypeId t rel_type
      in if type_id > 0 then
           (case at adjacency internal_id of
              Inl e \<Rightarrow> Inl e
            | Inr groups \<Rightarrow>
                (case collect_types t adjacency internal_id rest of
                   Inl e \<Rightarrow> Inl e
                 | Inr others \<Rightarrow>
                     Inr ((case find_group type_id groups of Some g \<Rightarrow> ids g | None \<Rightarrow> []) @ others)))
         else collect_types t adjacency internal_id rest)"

text \<open>
  \<^verbatim>\<open>NodeGetDegree(id, direction, rel_types)\<close>: the count grows by the size of each
  group found, which is the length of the entries collected.
\<close>

definition NodeGetDegree_types :: "Shard \<Rightarrow> nat \<Rightarrow> Direction \<Rightarrow> string list \<Rightarrow> exn + nat" where
  "NodeGetDegree_types s i direction rel_types =
     (if ValidNodeId s i then
        (let internal_id = externalToInternal i
         in case (if direction \<noteq> IN
                  then collect_types (relationship_types s) (outgoing_relationships s) internal_id rel_types
                  else Inr []) of
              Inl e \<Rightarrow> Inl e
            | Inr outs \<Rightarrow>
                (case (if direction \<noteq> OUT
                       then collect_types (relationship_types s) (incoming_relationships s) internal_id rel_types
                       else Inr []) of
                   Inl e \<Rightarrow> Inl e
                 | Inr ins \<Rightarrow> Inr (length outs + length ins)))
      else Inr 0)"

text \<open>\<^verbatim>\<open>NodeGetRelationshipsIDs(id)\<close>\<close>

definition NodeGetRelationshipsIDs :: "Shard \<Rightarrow> nat \<Rightarrow> exn + Ids list" where
  "NodeGetRelationshipsIDs s i =
     (if ValidNodeId s i then
        (let internal_id = externalToInternal i
         in case at (outgoing_relationships s) internal_id of
              Inl e \<Rightarrow> Inl e
            | Inr out_groups \<Rightarrow>
                (case at (incoming_relationships s) internal_id of
                   Inl e \<Rightarrow> Inl e
                 | Inr in_groups \<Rightarrow> Inr (concat (map ids out_groups) @ concat (map ids in_groups))))
      else Inr [])"

text \<open>\<^verbatim>\<open>NodeGetRelationshipsIDs(id, direction)\<close>\<close>

definition NodeGetRelationshipsIDs_dir :: "Shard \<Rightarrow> nat \<Rightarrow> Direction \<Rightarrow> exn + Ids list" where
  "NodeGetRelationshipsIDs_dir s i direction =
     (if ValidNodeId s i then
        (let internal_id = externalToInternal i
         in case (if direction \<noteq> IN then at (outgoing_relationships s) internal_id else Inr []) of
              Inl e \<Rightarrow> Inl e
            | Inr out_groups \<Rightarrow>
                (case (if direction \<noteq> OUT then at (incoming_relationships s) internal_id else Inr []) of
                   Inl e \<Rightarrow> Inl e
                 | Inr in_groups \<Rightarrow> Inr (concat (map ids out_groups) @ concat (map ids in_groups))))
      else Inr [])"

text \<open>\<^verbatim>\<open>NodeGetRelationshipsIDs(id, direction, rel_types)\<close>\<close>

definition NodeGetRelationshipsIDs_types :: "Shard \<Rightarrow> nat \<Rightarrow> Direction \<Rightarrow> string list \<Rightarrow> exn + Ids list" where
  "NodeGetRelationshipsIDs_types s i direction rel_types =
     (if ValidNodeId s i then
        (let internal_id = externalToInternal i
         in case (if direction \<noteq> IN
                  then collect_types (relationship_types s) (outgoing_relationships s) internal_id rel_types
                  else Inr []) of
              Inl e \<Rightarrow> Inl e
            | Inr outs \<Rightarrow>
                (case (if direction \<noteq> OUT
                       then collect_types (relationship_types s) (incoming_relationships s) internal_id rel_types
                       else Inr []) of
                   Inl e \<Rightarrow> Inl e
                 | Inr ins \<Rightarrow> Inr (outs @ ins)))
      else Inr [])"

section \<open>Peered operations\<close>

text \<open>
  The container of the sharded service is the list of its shards, shard \<open>k\<close> at index
  \<open>k\<close>. \<^verbatim>\<open>invoke_on(k, f)\<close> runs \<open>f\<close> on shard \<open>k\<close>; an exception of \<open>f\<close> is a failed
  future. A peered operation is run here from its first message to its last with no
  other task of the container in between.

  Seastar is not among the sources. What \<^verbatim>\<open>invoke_on(k, f)\<close> does for a \<open>k\<close> that is not
  a shard of the container is taken here to be a failed future that carries
  \<open>no_such_shard\<close>: at the head of a peered call it is the result of the call, and inside a
  join it fails the join, as an exception of a leg does. Nothing below depends on this
  where every shard that is named is a shard of the container.
\<close>

type_synonym container = "Shard list"

text \<open>
  \<^verbatim>\<open>RelationshipAddEmptyPeered(rel_type_id, id1, id2)\<close> called on the shard \<open>me\<close>, with
  \<open>t\<close> for \<^verbatim>\<open>rel_type_id\<close>. When
  the incoming side throws, the future fails and the outgoing half stays; the failed
  future carries no state here.
\<close>

definition RelationshipAddEmptyPeered :: "container \<Rightarrow> nat \<Rightarrow> nat \<Rightarrow> nat \<Rightarrow> nat \<Rightarrow> exn + (nat \<times> container)" where
  "RelationshipAddEmptyPeered c me t id1 id2 =
     (let shard_id1 = CalculateShardId id1;
          shard_id2 = CalculateShardId id2
      in if me < length c then
           (if ValidTypeId (relationship_types (c ! me)) t then
              (if shard_id1 < length c \<and> shard_id2 < length c then
                 (if ValidNodeId (c ! shard_id1) id1 \<and> ValidNodeId (c ! shard_id2) id2 then
                    (case RelationshipAddEmptyToOutgoing (c ! shard_id1) t id1 id2 of
                       Inl e \<Rightarrow> Inl e
                     | Inr (r_id, s1) \<Rightarrow>
                         (let c1 = c[shard_id1 := s1]
                          in case RelationshipAddToIncoming (c1 ! shard_id2) t r_id id1 id2 of
                               Inl e \<Rightarrow> Inl e
                             | Inr (r, s2) \<Rightarrow> Inr (r, c1[shard_id2 := s2])))
                  else Inr (0, c))
               else Inl no_such_shard)
            else Inr (0, c))
         else Inl no_such_shard)"

subsection \<open>The cross-shard node remove\<close>

text \<open>
  \<^verbatim>\<open>NodeRemoveGetIncoming\<close> and \<^verbatim>\<open>NodeRemoveGetOutgoing\<close>: for each entry of each group a
  map from the peer's shard to the peer's id is built (empty for a peer of this shard;
  \<^verbatim>\<open>node_ids.at\<close> throws for a shard number that is not below \<^verbatim>\<open>cpus\<close>) and inserted
  under the relationship type, so the first entry of a type is the one that stays.
\<close>

fun NodeRemoveGet_ids :: "Shard \<Rightarrow> nat \<Rightarrow> Ids list \<Rightarrow> (nat \<times> (nat \<times> nat list) list) list
    \<Rightarrow> exn + (nat \<times> (nat \<times> nat list) list) list" where
  "NodeRemoveGet_ids s rel_type [] relationships_to_delete = Inr relationships_to_delete"
| "NodeRemoveGet_ids s rel_type (entry # rest) relationships_to_delete =
     (let node_shard_id = CalculateShardId (node_id entry)
      in if node_shard_id \<noteq> shard_id s then
           (if node_shard_id < cpus s then
              NodeRemoveGet_ids s rel_type rest
                (map_insert (rel_type, [(node_shard_id, [node_id entry])]) relationships_to_delete)
            else Inl out_of_range)
         else NodeRemoveGet_ids s rel_type rest (map_insert (rel_type, []) relationships_to_delete))"

fun NodeRemoveGet_groups :: "Shard \<Rightarrow> Group list \<Rightarrow> (nat \<times> (nat \<times> nat list) list) list
    \<Rightarrow> exn + (nat \<times> (nat \<times> nat list) list) list" where
  "NodeRemoveGet_groups s [] relationships_to_delete = Inr relationships_to_delete"
| "NodeRemoveGet_groups s (types # rest) relationships_to_delete =
     (case NodeRemoveGet_ids s (rel_type_id types) (ids types) relationships_to_delete of
        Inl e \<Rightarrow> Inl e
      | Inr m \<Rightarrow> NodeRemoveGet_groups s rest m)"

definition NodeRemoveGetIncoming :: "Shard \<Rightarrow> nat \<Rightarrow> exn + (nat \<times> (nat \<times> nat list) list) list" where
  "NodeRemoveGetIncoming s internal_id =
     (case at (outgoing_relationships s) internal_id of
        Inl e \<Rightarrow> Inl e
      | Inr groups \<Rightarrow> NodeRemoveGet_groups s groups [])"

definition NodeRemoveGetOutgoing :: "Shard \<Rightarrow> nat \<Rightarrow> exn + (nat \<times> (nat \<times> nat list) list) list" where
  "NodeRemoveGetOutgoing s internal_id =
     (case at (incoming_relationships s) internal_id of
        Inl e \<Rightarrow> Inl e
      | Inr groups \<Rightarrow> NodeRemoveGet_groups s groups [])"

text \<open>
  \<^verbatim>\<open>NodeRemoveDeleteIncoming(id, grouped_relationships)\<close>: the result is the exception, if
  one was thrown, and the shard as the call leaves it.
\<close>

fun NodeRemoveDeleteIncoming_nodes :: "nat \<Rightarrow> nat \<Rightarrow> nat list \<Rightarrow> Shard \<Rightarrow> exn option \<times> Shard" where
  "NodeRemoveDeleteIncoming_nodes i t [] s = (None, s)"
| "NodeRemoveDeleteIncoming_nodes i t (n # rest) s =
     (let internal_id = externalToInternal n
      in if internal_id < length (incoming_relationships s) then
           NodeRemoveDeleteIncoming_nodes i t rest
             (s\<lparr>incoming_relationships := (incoming_relationships s)[internal_id :=
                   remove_from_group t (\<lambda>entry. node_id entry = i) (incoming_relationships s ! internal_id)]\<rparr>)
         else (Some out_of_range, s))"

fun NodeRemoveDeleteIncoming :: "nat \<Rightarrow> (nat \<times> nat list) list \<Rightarrow> Shard \<Rightarrow> exn option \<times> Shard" where
  "NodeRemoveDeleteIncoming i [] s = (None, s)"
| "NodeRemoveDeleteIncoming i (rel_type_node_ids # rest) s =
     (case NodeRemoveDeleteIncoming_nodes i (fst rel_type_node_ids) (snd rel_type_node_ids) s of
        (Some e, s') \<Rightarrow> (Some e, s')
      | (None, s') \<Rightarrow> NodeRemoveDeleteIncoming i rest s')"

text \<open>
  The predicate of the \<^verbatim>\<open>remove_if\<close> in \<^verbatim>\<open>NodeRemoveDeleteOutgoing\<close> recycles the
  relationship of each entry it accepts. \<open>delete_matching\<close> applies it to the entries in
  order and gives the entries kept; when the predicate throws, the vector holds the
  entries kept so far, followed by what it held at these positions before.
\<close>

fun delete_matching :: "nat \<Rightarrow> nat \<Rightarrow> Ids list \<Rightarrow> Shard \<Rightarrow> exn option \<times> Ids list \<times> Shard" where
  "delete_matching i t [] s = (None, [], s)"
| "delete_matching i t (entry # rest) s =
     (if node_id entry = i then
        (let internal_id = externalToInternal (rel_id entry);
             s1 = s\<lparr>deleted_relationships := insert internal_id (deleted_relationships s)\<rparr>
         in case removeId (relationship_types s1) t (rel_id entry) of
              Inl e \<Rightarrow> (Some e, [], s1)
            | Inr r \<Rightarrow>
                (let s2 = s1\<lparr>relationship_types := snd r\<rparr>
                 in if internal_id < length (relationships s2) then
                      delete_matching i t rest
                        (s2\<lparr>relationships := (relationships s2)[internal_id := Relationship_zero]\<rparr>)
                    else (Some out_of_range, [], s2)))
      else (case delete_matching i t rest s of (e, kept, s') \<Rightarrow> (e, entry # kept, s')))"

fun NodeRemoveDeleteOutgoing_nodes :: "nat \<Rightarrow> nat \<Rightarrow> nat list \<Rightarrow> Shard \<Rightarrow> exn option \<times> Shard" where
  "NodeRemoveDeleteOutgoing_nodes i t [] s = (None, s)"
| "NodeRemoveDeleteOutgoing_nodes i t (n # rest) s =
     (let internal_id = externalToInternal n
      in if internal_id < length (outgoing_relationships s) then
           (case find_group t (outgoing_relationships s ! internal_id) of
              None \<Rightarrow> NodeRemoveDeleteOutgoing_nodes i t rest s
            | Some g \<Rightarrow>
                (case delete_matching i t (ids g) s of
                   (Some e, kept, s') \<Rightarrow>
                     (Some e,
                      s'\<lparr>outgoing_relationships := (outgoing_relationships s')[internal_id :=
                            modify_group t (\<lambda>l. kept @ drop (length kept) l)
                              (outgoing_relationships s' ! internal_id)]\<rparr>)
                 | (None, kept, s') \<Rightarrow>
                     NodeRemoveDeleteOutgoing_nodes i t rest
                       (s'\<lparr>outgoing_relationships := (outgoing_relationships s')[internal_id :=
                             modify_group t (\<lambda>l. kept) (outgoing_relationships s' ! internal_id)]\<rparr>)))
         else (Some out_of_range, s))"

fun NodeRemoveDeleteOutgoing :: "nat \<Rightarrow> (nat \<times> nat list) list \<Rightarrow> Shard \<Rightarrow> exn option \<times> Shard" where
  "NodeRemoveDeleteOutgoing i [] s = (None, s)"
| "NodeRemoveDeleteOutgoing i (rel_type_node_ids # rest) s =
     (case NodeRemoveDeleteOutgoing_nodes i (fst rel_type_node_ids) (snd rel_type_node_ids) s of
        (Some e, s') \<Rightarrow> (Some e, s')
      | (None, s') \<Rightarrow> NodeRemoveDeleteOutgoing i rest s')"

text \<open>
  The loop \<^verbatim>\<open>for (auto const& [their_shard, grouped_rels] : sharded_grouped_rels)\<close> with
  the join \<^verbatim>\<open>when_all_succeed\<close>: every leg is sent and runs on the shard named by the
  key of its entry, whatever the other legs do; a leg sent to a shard that the container
  does not have counts as failed (the failed future of the section's head). The result
  says whether the join failed and gives the container after the legs.
\<close>

fun fan_out :: "((nat \<times> nat list) list \<Rightarrow> Shard \<Rightarrow> exn option \<times> Shard)
    \<Rightarrow> (nat \<times> (nat \<times> nat list) list) list \<Rightarrow> container \<Rightarrow> bool \<times> container" where
  "fan_out leg [] c = (False, c)"
| "fan_out leg (entry # rest) c =
     (let their_shard = fst entry;
          grouped_rels = snd entry
      in if their_shard < length c then
           (case leg grouped_rels (c ! their_shard) of
              (e, s') \<Rightarrow>
                (case fan_out leg rest (c[their_shard := s']) of
                   (failed, c') \<Rightarrow> (e \<noteq> None \<or> failed, c')))
         else (case fan_out leg rest c of (failed, c') \<Rightarrow> (True, c')))"

text \<open>The future \<^verbatim>\<open>incoming\<close> of \<^verbatim>\<open>NodeRemovePeered\<close>, read on the node's shard.\<close>

definition incoming_join :: "container \<Rightarrow> nat \<Rightarrow> nat \<Rightarrow> container \<Rightarrow> bool \<times> container" where
  "incoming_join c0 node_shard_id external_id c =
     (case NodeRemoveGetIncoming (c0 ! node_shard_id) (externalToInternal external_id) of
        Inl e \<Rightarrow> (True, c)
      | Inr sharded_grouped_rels \<Rightarrow> fan_out (NodeRemoveDeleteIncoming external_id) sharded_grouped_rels c)"

text \<open>
  The future \<^verbatim>\<open>outgoing\<close>; the source reads it with \<^verbatim>\<open>invoke_on(shard_id, ...)\<close>, on
  the shard that runs the call.
\<close>

definition outgoing_join :: "container \<Rightarrow> nat \<Rightarrow> nat \<Rightarrow> container \<Rightarrow> bool \<times> container" where
  "outgoing_join c0 me external_id c =
     (case NodeRemoveGetOutgoing (c0 ! me) (externalToInternal external_id) of
        Inl e \<Rightarrow> (True, c)
      | Inr sharded_grouped_rels \<Rightarrow> fan_out (NodeRemoveDeleteOutgoing external_id) sharded_grouped_rels c)"

text \<open>
  \<^verbatim>\<open>NodeRemovePeered(external_id)\<close> called on the shard \<open>me\<close>. The two reads happen
  before the legs when \<open>reads_first\<close> holds (the outgoing read is a call on the running
  shard and the incoming legs are messages), and otherwise each read is followed by its
  legs; the legs of the incoming join run before the legs of the outgoing join. The
  legs of the two joins write different members of a shard, so their order on one shard
  does not show. Then \<^verbatim>\<open>when_all(incoming, outgoing).then(...)\<close>.
\<close>

definition incoming_future :: "container \<Rightarrow> nat \<Rightarrow> bool \<times> container" where
  "incoming_future c external_id = incoming_join c (CalculateShardId external_id) external_id c"

definition outgoing_future :: "bool \<Rightarrow> container \<Rightarrow> nat \<Rightarrow> nat \<Rightarrow> bool \<times> container" where
  "outgoing_future reads_first c me external_id =
     outgoing_join (if reads_first then c else snd (incoming_future c external_id)) me external_id
       (snd (incoming_future c external_id))"

definition NodeRemovePeered :: "bool \<Rightarrow> container \<Rightarrow> nat \<Rightarrow> nat \<Rightarrow> exn + (bool \<times> container)" where
  "NodeRemovePeered reads_first c me external_id =
     (let node_shard_id = CalculateShardId external_id
      in if me < length c \<and> node_shard_id < length c then
           (if ValidNodeId (c ! node_shard_id) external_id then
              (let incoming = incoming_future c external_id;
                   outgoing = outgoing_future reads_first c me external_id
               in if fst incoming \<or> fst outgoing then Inr (False, snd outgoing)
                  else
                    (case NodeRemove_id (snd outgoing ! node_shard_id) external_id of
                       Inl e \<Rightarrow> Inl e
                     | Inr (removed, s') \<Rightarrow> Inr (removed, (snd outgoing)[node_shard_id := s'])))
            else Inr (False, c))
         else Inl no_such_shard)"

section \<open>Well-formed shards\<close>

text \<open>
  What the slot allocator of the nodes relies on: the zero node is there, the vector is
  short enough for a 56-bit index, the shard id is a byte, and the deleted indices are
  finitely many, not zero and inside the vector.
\<close>

definition NodeSlots_ok :: "Shard \<Rightarrow> bool" where
  "NodeSlots_ok s =
     (0 < length (nodes s) \<and> length (nodes s) < 2 ^ 56 \<and> shard_id s < 2 ^ 8
      \<and> finite (deleted_nodes s)
      \<and> (\<forall>i \<in> deleted_nodes s. 0 < i \<and> i < length (nodes s)))"

text \<open>Every deleted node slot holds the zero node.\<close>

definition NodeSlots_zero :: "Shard \<Rightarrow> bool" where
  "NodeSlots_zero s = (\<forall>i \<in> deleted_nodes s. nodes s ! i = Node_zero)"

text \<open>
  The interner has a bitmap for each id below its size, as it has when the ids are
  handed out in order (\<^verbatim>\<open>insertOrGetTypeId\<close> on shard 0, then the broadcast).
\<close>

definition Types_dense :: "Types \<Rightarrow> bool" where
  "Types_dense t = (set [0..<length (id_to_type t)] \<subseteq> fst ` set (ids_of_type t))"

text \<open>
  What the slot allocator of the relationships relies on, and the two adjacency vectors
  having a place for each node slot.
\<close>

definition RelSlots_ok :: "Shard \<Rightarrow> bool" where
  "RelSlots_ok s =
     (finite (deleted_relationships s)
      \<and> (\<forall>i \<in> deleted_relationships s. i < length (relationships s)))"

definition Adjacency_ok :: "Shard \<Rightarrow> bool" where
  "Adjacency_ok s =
     (length (outgoing_relationships s) = length (nodes s)
      \<and> length (incoming_relationships s) = length (nodes s))"

text \<open>
  The node store of a shard: the records, the deleted slots and the key index, which is
  what the local remove of a node changes when it frees the slot.
\<close>

definition node_slots :: "Shard \<Rightarrow> Node list \<times> nat set \<times> (string \<times> (string \<times> nat) list) list" where
  "node_slots s = (nodes s, deleted_nodes s, node_keys s)"

section \<open>A fixture\<close>

text \<open>
  The documents of the examples, as simdjson parses them; every other text is refused.
\<close>

definition json_parser :: "string \<Rightarrow> (string \<times> element) list option" where
  \<open>json_parser text =
     map_of
       [(''{}'', []),
        (''{"name":"max"}'', [(''name'', STRING ''max'')]),
        (''{"name":"alex","age":55}'', [(''name'', STRING ''alex''), (''age'', INT64 55)]),
        (''{"weight":5}'', [(''weight'', INT64 5)]),
        (''{"tags":[1,"x"]}'', [(''tags'', ARRAY [INT64 1, STRING ''x''])])]
       text\<close>

text \<open>
  The shard of the unit tests (\<^verbatim>\<open>Shard shard(4)\<close> on core 0) after
  \<^verbatim>\<open>NodeTypeInsert("Node", 1)\<close> and \<^verbatim>\<open>RelationshipTypeInsert("KNOWS", 1)\<close>.
\<close>

definition fixture_types :: "eval_order \<Rightarrow> Shard" where
  "fixture_types ord =
     \<lparr>cpus = 4, shard_id = 0, parser = json_parser, eval = ord,
      node_keys = [(''Node'', [])],
      nodes = [Node_zero], relationships = [Relationship_zero],
      outgoing_relationships = [[]], incoming_relationships = [[]],
      deleted_nodes = {}, deleted_relationships = {},
      node_types = \<lparr>type_to_id = [([], 0), (''Node'', 1)], id_to_type = [(0, []), (1, ''Node'')],
                    ids_of_type = [(0, {}), (1, {})]\<rparr>,
      relationship_types = \<lparr>type_to_id = [([], 0), (''KNOWS'', 1)], id_to_type = [(0, []), (1, ''KNOWS'')],
                            ids_of_type = [(0, {}), (1, {})]\<rparr>\<rparr>"

text \<open>
  Then \<^verbatim>\<open>NodeAddEmpty("Node", 1, "empty")\<close> and
  \<^verbatim>\<open>NodeAdd("Node", 1, "existing", R"({"name":"max"})")\<close>, which give 256 and 512.
\<close>

definition fixture_nodes :: "eval_order \<Rightarrow> Shard" where
  "fixture_nodes ord =
     (fixture_types ord)
       \<lparr>node_keys := [(''Node'', [(''empty'', 256), (''existing'', 512)])],
        nodes := [Node_zero, Node_new 256 1 ''empty'' [],
                  Node_new 512 1 ''existing'' [(''name'', String_any ''max'')]],
        outgoing_relationships := [[], [], []],
        incoming_relationships := [[], [], []],
        node_types := \<lparr>type_to_id = [([], 0), (''Node'', 1)], id_to_type = [(0, []), (1, ''Node'')],
                       ids_of_type = [(0, {}), (1, {512, 256})]\<rparr>\<rparr>"

text \<open>Then \<^verbatim>\<open>RelationshipAddEmptySameShard(1, 256, 512)\<close>, which gives 256.\<close>

definition fixture :: "eval_order \<Rightarrow> Shard" where
  "fixture ord =
     (fixture_nodes ord)
       \<lparr>relationships := [Relationship_zero, Relationship_new 256 256 512 1 []],
        outgoing_relationships := [[], [\<lparr>rel_type_id = 1, ids = [\<lparr>node_id = 512, rel_id = 256\<rparr>]\<rparr>], []],
        incoming_relationships := [[], [], [\<lparr>rel_type_id = 1, ids = [\<lparr>node_id = 256, rel_id = 256\<rparr>]\<rparr>]],
        relationship_types := \<lparr>type_to_id = [([], 0), (''KNOWS'', 1)], id_to_type = [(0, []), (1, ''KNOWS'')],
                               ids_of_type = [(0, {}), (1, {256})]\<rparr>\<rparr>"

text \<open>Then \<^verbatim>\<open>NodeRemove("Node", "existing")\<close>, which returns true.\<close>

definition fixture_removed :: "eval_order \<Rightarrow> Shard" where
  "fixture_removed ord =
     (fixture ord)
       \<lparr>node_keys := [(''Node'', [(''empty'', 256)])],
        nodes := [Node_zero, Node_new 256 1 ''empty'' [], Node_zero],
        relationships := [Relationship_zero, Relationship_zero],
        outgoing_relationships := [[], [\<lparr>rel_type_id = 1, ids = []\<rparr>], []],
        incoming_relationships := [[], [], []],
        deleted_nodes := {2},
        deleted_relationships := {256},
        node_types := \<lparr>type_to_id = [([], 0), (''Node'', 1)], id_to_type = [(0, []), (1, ''Node'')],
                       ids_of_type = [(0, {}), (1, {256})]\<rparr>,
        relationship_types := \<lparr>type_to_id = [([], 0), (''KNOWS'', 1)], id_to_type = [(0, []), (1, ''KNOWS'')],
                               ids_of_type = [(0, {}), (1, {})]\<rparr>\<rparr>"

text \<open>
  A container of four shards: the shard of the fixture with its two nodes on core 0, a
  shard with the nodes 257 and 513 on core 1, and two shards with no node.
\<close>

definition fixture_peer :: "eval_order \<Rightarrow> Shard" where
  "fixture_peer ord =
     (fixture_types ord)
       \<lparr>shard_id := 1,
        node_keys := [(''Node'', [(''other'', 257), (''third'', 513)])],
        nodes := [Node_zero, Node_new 257 1 ''other'' [], Node_new 513 1 ''third'' []],
        outgoing_relationships := [[], [], []],
        incoming_relationships := [[], [], []],
        node_types := \<lparr>type_to_id = [([], 0), (''Node'', 1)], id_to_type = [(0, []), (1, ''Node'')],
                       ids_of_type = [(0, {}), (1, {513, 257})]\<rparr>\<rparr>"

definition fixture_idle :: "nat \<Rightarrow> eval_order \<Rightarrow> Shard" where
  "fixture_idle k ord = (fixture_types ord)\<lparr>shard_id := k\<rparr>"

definition fixture_container :: "eval_order \<Rightarrow> container" where
  "fixture_container ord = [fixture_nodes ord, fixture_peer ord, fixture_idle 2 ord, fixture_idle 3 ord]"

text \<open>
  The same container when core 0 has run the calls of the unit tests up to
  \<^verbatim>\<open>NodeRemove("Node", "existing")\<close>: its shard 0 is \<open>fixture_removed\<close>.
\<close>

definition removed_container :: "eval_order \<Rightarrow> container" where
  "removed_container ord = [fixture_removed ord, fixture_peer ord, fixture_idle 2 ord, fixture_idle 3 ord]"

text \<open>
  The container after \<^verbatim>\<open>RelationshipTypeInsert("LIKES", 2)\<close> on every shard and the
  peered adds of a \<^verbatim>\<open>KNOWS\<close> from 256 to 257 and of a \<^verbatim>\<open>LIKES\<close> from 256 to 513.
\<close>

definition with_likes :: "Shard \<Rightarrow> Shard" where
  "with_likes s = snd (RelationshipTypeInsert s ''LIKES'' 2)"

definition crossed_one :: "eval_order \<Rightarrow> container" where
  "crossed_one ord =
     [(with_likes (fixture_nodes ord))
        \<lparr>relationships := [Relationship_zero, Relationship_new 256 256 257 1 []],
         outgoing_relationships := [[], [\<lparr>rel_type_id = 1, ids = [\<lparr>node_id = 257, rel_id = 256\<rparr>]\<rparr>], []],
         relationship_types :=
           \<lparr>type_to_id = [([], 0), (''KNOWS'', 1), (''LIKES'', 2)],
            id_to_type = [(0, []), (1, ''KNOWS''), (2, ''LIKES'')],
            ids_of_type = [(0, {}), (1, {256}), (2, {})]\<rparr>\<rparr>,
      (with_likes (fixture_peer ord))
        \<lparr>incoming_relationships := [[], [\<lparr>rel_type_id = 1, ids = [\<lparr>node_id = 256, rel_id = 256\<rparr>]\<rparr>], []]\<rparr>,
      with_likes (fixture_idle 2 ord),
      with_likes (fixture_idle 3 ord)]"

definition crossed :: "eval_order \<Rightarrow> container" where
  "crossed ord =
     [(with_likes (fixture_nodes ord))
        \<lparr>relationships := [Relationship_zero, Relationship_new 256 256 257 1 [],
                           Relationship_new 512 256 513 2 []],
         outgoing_relationships :=
           [[], [\<lparr>rel_type_id = 1, ids = [\<lparr>node_id = 257, rel_id = 256\<rparr>]\<rparr>,
                 \<lparr>rel_type_id = 2, ids = [\<lparr>node_id = 513, rel_id = 512\<rparr>]\<rparr>], []],
         relationship_types :=
           \<lparr>type_to_id = [([], 0), (''KNOWS'', 1), (''LIKES'', 2)],
            id_to_type = [(0, []), (1, ''KNOWS''), (2, ''LIKES'')],
            ids_of_type = [(0, {}), (1, {256}), (2, {512})]\<rparr>\<rparr>,
      (with_likes (fixture_peer ord))
        \<lparr>incoming_relationships :=
           [[], [\<lparr>rel_type_id = 1, ids = [\<lparr>node_id = 256, rel_id = 256\<rparr>]\<rparr>],
                [\<lparr>rel_type_id = 2, ids = [\<lparr>node_id = 256, rel_id = 512\<rparr>]\<rparr>]]\<rparr>,
      with_likes (fixture_idle 2 ord),
      with_likes (fixture_idle 3 ord)]"

text \<open>
  The container that \<^verbatim>\<open>NodeRemovePeered(256)\<close> leaves: the incoming entry of the node
  257 is gone, the rest is as it was.
\<close>

definition crossed_after :: "eval_order \<Rightarrow> container" where
  "crossed_after ord =
     (crossed ord)
       [1 := (crossed ord ! 1)
          \<lparr>incoming_relationships :=
             [[], [\<lparr>rel_type_id = 1, ids = []\<rparr>],
                  [\<lparr>rel_type_id = 2, ids = [\<lparr>node_id = 256, rel_id = 512\<rparr>]\<rparr>]]\<rparr>]"

section \<open>Properties\<close>

subsection \<open>The fixture is a state of the shard\<close>

lemma fixture_types_built:
  "snd (RelationshipTypeInsert (snd (NodeTypeInsert (Shard_new 4 0 json_parser ord) ''Node'' 1)) ''KNOWS'' 1)
   = fixture_types ord"
  by (simp add: RelationshipTypeInsert_def NodeTypeInsert_def Shard_new_def fixture_types_def
      addTypeId_def Types_new_def emplace_def Let_def)

lemmas shard_defs =
  NodeAddEmpty_def NodeAdd_def NodeAdd_store_def Let_def internalToExternal_def SHIFTED_BITS_def
  addId_def ValidTypeId_def at_map_def update_ids_def node_keys_insert_def emplace_def
  externalToInternal_def parse_properties_def json_parser_def map_insert_def Node_new_def
  Property_of_def ValidNodeId_def ValidRelationshipId_def Relationship_store_def add_to_group_def
  find_group_def Relationship_new_def

lemmas fixture_defs = fixture_types_def fixture_nodes_def fixture_def

lemma fixture_nodes_built:
  "NodeAddEmpty (fixture_types ord) ''Node'' 1 ''empty'' =
     Inr (256, (fixture_types ord)
       \<lparr>node_keys := [(''Node'', [(''empty'', 256)])],
        nodes := [Node_zero, Node_new 256 1 ''empty'' []],
        outgoing_relationships := [[], []],
        incoming_relationships := [[], []],
        node_types := \<lparr>type_to_id = [([], 0), (''Node'', 1)], id_to_type = [(0, []), (1, ''Node'')],
                       ids_of_type = [(0, {}), (1, {256})]\<rparr>\<rparr>)"
  \<open>NodeAdd ((fixture_types ord)
       \<lparr>node_keys := [(''Node'', [(''empty'', 256)])],
        nodes := [Node_zero, Node_new 256 1 ''empty'' []],
        outgoing_relationships := [[], []],
        incoming_relationships := [[], []],
        node_types := \<lparr>type_to_id = [([], 0), (''Node'', 1)], id_to_type = [(0, []), (1, ''Node'')],
                       ids_of_type = [(0, {}), (1, {256})]\<rparr>\<rparr>) ''Node'' 1 ''existing'' ''{"name":"max"}''
    = Inr (512, fixture_nodes ord)\<close>
  by (simp_all add: shard_defs fixture_defs)

lemma fixture_built:
  "RelationshipAddEmptySameShard (fixture_nodes ord) 1 256 512 = Inr (256, fixture ord)"
  by (simp add: RelationshipAddEmptySameShard_def shard_defs fixture_defs)

text \<open>\<^verbatim>\<open>NodeRemove("Node", "existing")\<close> on the fixture gives \<open>fixture_removed\<close>.\<close>

lemma fixture_removed_built:
  "NodeRemove (fixture ord) ''Node'' ''existing'' = Inr (True, fixture_removed ord)"
  by (simp add: NodeRemove_def getTypeId_def removeId_def node_keys_erase_def at_def
      remove_from_group_def CalculateShardId_def MASK_def fixture_removed_def
      shard_defs fixture_defs)

subsection \<open>C10: the result of addTypeId\<close>

text \<open>
  C10. \<^verbatim>\<open>Types::addTypeId\<close> returns false on each of its three paths, and so do
  \<^verbatim>\<open>NodeTypeInsert\<close> and \<^verbatim>\<open>RelationshipTypeInsert\<close>, which return its result; when the
  name and the id are both new the binding is in the maps afterwards, and the result is
  false all the same.
\<close>

theorem addTypeId_returns_false:
  "fst (addTypeId t token token_id) = False
   \<and> fst (NodeTypeInsert s token token_id) = False
   \<and> fst (RelationshipTypeInsert s token token_id) = False
   \<and> (map_of (type_to_id t) token = None \<and> map_of (id_to_type t) token_id = None \<longrightarrow>
        map_of (type_to_id (snd (addTypeId t token token_id))) token = Some token_id
        \<and> map_of (id_to_type (snd (addTypeId t token token_id))) token_id = Some token)"
proof -
  have f: "fst (addTypeId u token token_id) = False" for u
    by (simp add: addTypeId_def split: option.splits)
  have ins: "map_of (type_to_id (snd (addTypeId t token token_id))) token = Some token_id
        \<and> map_of (id_to_type (snd (addTypeId t token token_id))) token_id = Some token"
    if "map_of (type_to_id t) token = None" "map_of (id_to_type t) token_id = None"
    using that by (simp add: addTypeId_def emplace_def map_of_eq_None_iff [symmetric] map_add_def)
  show ?thesis
    using ins by (simp add: f NodeTypeInsert_def RelationshipTypeInsert_def Let_def)
qed

theorem addTypeId_returns_false_witness:
  "map_of (type_to_id Types_new) ''Node'' = None \<and> map_of (id_to_type Types_new) 1 = None
   \<and> fst (addTypeId Types_new ''Node'' 1) = False
   \<and> map_of (type_to_id (snd (addTypeId Types_new ''Node'' 1))) ''Node'' = Some 1
   \<and> map_of (id_to_type (snd (addTypeId Types_new ''Node'' 1))) 1 = Some ''Node''"
  using addTypeId_returns_false [of Types_new "''Node''" 1] by (simp add: Types_new_def)

subsection \<open>C9: the result of deleteProperty\<close>

lemma deleteProperty_cases:
  "fst (deleteProperty lhs_first property ps) = False"
  "fst (deleteProperty rhs_first property ps) \<longleftrightarrow> property \<in> getKey ` set ps"
  "snd (deleteProperty ord property ps) = filter (\<lambda>x. getKey x \<noteq> property) ps"
proof -
  show "fst (deleteProperty lhs_first property ps) = False"
    by (simp add: deleteProperty_def Let_def)
  show "snd (deleteProperty ord property ps) = filter (\<lambda>x. getKey x \<noteq> property) ps"
    by (simp add: deleteProperty_def Let_def)
  have "length (filter (\<lambda>x. getKey x \<noteq> property) ps) = length ps \<longleftrightarrow> property \<notin> getKey ` set ps"
  proof (induction ps)
    case Nil
    show ?case by simp
  next
    case (Cons a ps)
    show ?case
    proof (cases "getKey a = property")
      case True
      have "length (filter (\<lambda>x. getKey x \<noteq> getKey a) ps) \<le> length ps"
        by (rule length_filter_le)
      then have "length (filter (\<lambda>x. getKey x \<noteq> getKey a) ps) \<noteq> Suc (length ps)"
        by linarith
      with True show ?thesis by auto
    next
      case False
      with Cons show ?thesis by auto
    qed
  qed
  then show "fst (deleteProperty rhs_first property ps) \<longleftrightarrow> property \<in> getKey ` set ps"
    by (simp add: deleteProperty_def Let_def)
qed

text \<open>
  C9 says that the single-property delete returns false for every entity and key, also
  when the key was there. With \<^verbatim>\<open>properties.end()\<close> read before \<^verbatim>\<open>erase\<close> runs,
  deleting the property \<^verbatim>\<open>name\<close> of the node \<^verbatim>\<open>existing\<close> of the unit tests returns
  true, as \<^verbatim>\<open>NodeProperties.cpp\<close> requires.
\<close>

theorem NodePropertyDelete_true_counterexample:
  "ValidNodeId (fixture rhs_first) 512
   \<and> getProperty ''name'' (Node_properties (nodes (fixture rhs_first) ! 2)) = String_any ''max''
   \<and> fst (NodePropertyDelete (fixture rhs_first) 512 ''name'') = True
   \<and> Node_properties (nodes (snd (NodePropertyDelete (fixture rhs_first) 512 ''name'')) ! 2) = []"
  by (simp add: NodePropertyDelete_def Node_deleteProperty_def deleteProperty_def getProperty_def
      shard_defs fixture_defs)

text \<open>
  C9, amended. \<^verbatim>\<open>deleteProperty\<close> removes every entry of the key. Its result is false
  when \<^verbatim>\<open>erase\<close> runs before \<^verbatim>\<open>properties.end()\<close> is read; when \<^verbatim>\<open>end()\<close> is read
  first, the result says whether the key was present. \<^verbatim>\<open>NodePropertyDelete\<close> and
  \<^verbatim>\<open>RelationshipPropertyDelete\<close> return that result on a valid id and false on any
  other id, which they leave alone.
\<close>

theorem deleteProperty_result:
  "fst (deleteProperty lhs_first property ps) = False
   \<and> (fst (deleteProperty rhs_first property ps) \<longleftrightarrow> property \<in> getKey ` set ps)
   \<and> snd (deleteProperty ord property ps) = filter (\<lambda>x. getKey x \<noteq> property) ps
   \<and> (ValidNodeId s i \<longrightarrow>
        fst (NodePropertyDelete s i property) =
          (eval s = rhs_first
           \<and> property \<in> getKey ` set (Node_properties (nodes s ! externalToInternal i))))
   \<and> (ValidRelationshipId s i \<longrightarrow>
        fst (RelationshipPropertyDelete s i property) =
          (eval s = rhs_first
           \<and> property \<in> getKey ` set (Rel_properties (relationships s ! externalToInternal i))))
   \<and> (\<not> ValidNodeId s i \<longrightarrow> NodePropertyDelete s i property = (False, s))
   \<and> (\<not> ValidRelationshipId s i \<longrightarrow> RelationshipPropertyDelete s i property = (False, s))"
proof -
  have n: "fst (NodePropertyDelete s i property) =
      (eval s = rhs_first \<and> property \<in> getKey ` set (Node_properties (nodes s ! externalToInternal i)))"
    if "ValidNodeId s i"
    using that deleteProperty_cases(1,2) [where property = property and ps = "Node_properties (nodes s ! externalToInternal i)"]
    by (cases "eval s") (simp_all add: NodePropertyDelete_def Node_deleteProperty_def Let_def)
  have r: "fst (RelationshipPropertyDelete s i property) =
      (eval s = rhs_first \<and> property \<in> getKey ` set (Rel_properties (relationships s ! externalToInternal i)))"
    if "ValidRelationshipId s i"
    using that deleteProperty_cases(1,2) [where property = property and ps = "Rel_properties (relationships s ! externalToInternal i)"]
    by (cases "eval s") (simp_all add: RelationshipPropertyDelete_def Relationship_deleteProperty_def Let_def)
  show ?thesis
    using n r deleteProperty_cases(1,2) [of property ps] deleteProperty_cases(3) [of ord property ps]
    by (simp add: NodePropertyDelete_def RelationshipPropertyDelete_def)
qed

theorem deleteProperty_result_witness:
  "ValidNodeId (fixture rhs_first) 512
   \<and> ValidRelationshipId (fixture rhs_first) 256
   \<and> \<not> ValidNodeId (fixture rhs_first) 0
   \<and> \<not> ValidRelationshipId (fixture rhs_first) 0
   \<and> fst (NodePropertyDelete (fixture rhs_first) 512 ''name'') = True
   \<and> fst (RelationshipPropertyDelete (fixture rhs_first) 256 ''name'') = False
   \<and> NodePropertyDelete (fixture rhs_first) 0 ''name'' = (False, fixture rhs_first)
   \<and> RelationshipPropertyDelete (fixture rhs_first) 0 ''name'' = (False, fixture rhs_first)"
proof -
  have v: "ValidNodeId (fixture rhs_first) 512" "ValidRelationshipId (fixture rhs_first) 256"
    "\<not> ValidNodeId (fixture rhs_first) 0" "\<not> ValidRelationshipId (fixture rhs_first) 0"
    by (simp_all add: shard_defs fixture_defs)
  show ?thesis
    using v deleteProperty_result [of "''name''" "[]" rhs_first "fixture rhs_first" 512]
      deleteProperty_result [of "''name''" "[]" rhs_first "fixture rhs_first" 256]
      deleteProperty_result [of "''name''" "[]" rhs_first "fixture rhs_first" 0]
    by (simp add: shard_defs fixture_defs)
qed

subsection \<open>C1: where the FromJson variants on relationships write\<close>

text \<open>
  C1 asks that \<^verbatim>\<open>RelationshipPropertiesSetFromJson\<close> and
  \<^verbatim>\<open>RelationshipPropertiesResetFromJson\<close> write into the relationship's record and change
  no node. On the fixture, for the relationship 256 (slot 1) and the payload
  \<^verbatim>\<open>{"weight":5}\<close>, both return true, leave the relationship as it was and replace the
  properties of the node in slot 1.
\<close>

theorem RelationshipProperties_FromJson_write_node:
  \<open>ValidRelationshipId (fixture ord) 256
   \<and> Node_properties (nodes (fixture ord) ! 1) = []
   \<and> RelationshipPropertiesSetFromJson (fixture ord) 256 ''{"weight":5}'' =
       Inr (True, (fixture ord)
         \<lparr>nodes := [Node_zero, Node_new 256 1 ''empty'' [(''weight'', Int64_any 5)],
                    Node_new 512 1 ''existing'' [(''name'', String_any ''max'')]]\<rparr>)
   \<and> RelationshipPropertiesResetFromJson (fixture ord) 256 ''{"weight":5}'' =
       Inr (True, (fixture ord)
         \<lparr>nodes := [Node_zero, Node_new 256 1 ''empty'' [(''weight'', Int64_any 5)],
                    Node_new 512 1 ''existing'' [(''name'', String_any ''max'')]]\<rparr>)\<close>
  by (simp add: RelationshipPropertiesSetFromJson_def RelationshipPropertiesResetFromJson_def
      shard_defs fixture_defs setProperties_def getProperties_def)

subsection \<open>Maps and property vectors\<close>

lemma map_of_insort_key_fresh:
  "k \<notin> fst ` set m \<Longrightarrow> map_of (insort_key fst (k, v) m) = (map_of m)(k \<mapsto> v)"
  by (induction m) (auto simp: fun_upd_twist)

lemma map_of_map_insert:
  "map_of (map_insert kv m) =
     (case map_of m (fst kv) of None \<Rightarrow> (map_of m)(fst kv \<mapsto> snd kv) | Some _ \<Rightarrow> map_of m)"
proof (cases "map_of m (fst kv)")
  case None
  then have "fst kv \<notin> fst ` set m" by (simp add: map_of_eq_None_iff)
  with None map_of_insort_key_fresh [of "fst kv" m "snd kv"] show ?thesis
    by (simp add: map_insert_def)
next
  case (Some v)
  then have "fst kv \<in> fst ` set m" by (metis map_of_eq_None_iff option.distinct(1))
  with Some show ?thesis by (simp add: map_insert_def)
qed

lemma keys_map_insert: "fst ` set (map_insert kv m) = insert (fst kv) (fst ` set m)"
  by (auto simp: map_insert_def set_insort_key)

lemma map_of_map_merge: "map_of (map_merge target source) = map_of source ++ map_of target"
  unfolding map_merge_def
proof (induction source arbitrary: target)
  case Nil
  show ?case by simp
next
  case (Cons kv source)
  show ?case
    by (cases kv)
      (auto simp: Cons map_of_map_insert fun_eq_iff map_add_def split: option.splits)
qed

lemma keys_map_merge: "fst ` set (map_merge target source) = fst ` set target \<union> fst ` set source"
  unfolding map_merge_def
  by (induction source arbitrary: target) (auto simp: keys_map_insert)

lemma map_of_getProperties: "map_of (getProperties ps) = map_of (entries ps)"
proof -
  have "getProperties ps = map_merge [] (entries ps)"
    by (simp add: getProperties_def map_merge_def entries_def foldl_map)
  then show ?thesis by (simp add: map_of_map_merge)
qed

lemma keys_getProperties: "fst ` set (getProperties ps) = getKey ` set ps"
proof -
  have "getProperties ps = map_merge [] (entries ps)"
    by (simp add: getProperties_def map_merge_def entries_def foldl_map)
  then show ?thesis by (auto simp add: keys_map_merge entries_def image_iff)
qed

lemma getProperty_map_of:
  "getProperty k ps = (case map_of (entries ps) k of Some v \<Rightarrow> v | None \<Rightarrow> tombstone_any)"
  by (induction ps) (auto simp: getProperty_def entries_def)

lemma entries_setProperties: "entries (setProperties m) = m"
  by (simp add: entries_def setProperties_def Property_of_def comp_def)

lemma getProperty_setProperties:
  "getProperty k (setProperties m) = (case map_of m k of Some v \<Rightarrow> v | None \<Rightarrow> tombstone_any)"
  by (simp add: getProperty_map_of entries_setProperties)

lemma getProperty_merged:
  "getProperty k (setProperties (map_merge m (getProperties ps))) =
     (case map_of m k of Some v \<Rightarrow> v | None \<Rightarrow> getProperty k ps)"
  by (simp add: entries_setProperties map_of_map_merge map_of_getProperties getProperty_map_of
      map_add_def split: option.splits)

subsection \<open>C3: what properties_set keeps\<close>

lemma map_insert_keeps: "map_of m k = Some v \<Longrightarrow> map_of (map_insert kv m) k = Some v"
  by (auto simp: map_of_map_insert split: option.splits)

text \<open>One round of the loop of \<^verbatim>\<open>convertProperties\<close>: the next map is the old one or the old one with an insert.\<close>

lemma convertProperties_step:
  assumes "convertProperties m ((property, el) # object) = Inr m'"
  shows "\<exists>m1. convertProperties m1 object = Inr m' \<and> (m1 = m \<or> (\<exists>v. m1 = map_insert (property, v) m))"
proof (cases el)
  case (INT64 i)
  with assms show ?thesis by auto
next
  case (UINT64 u)
  with assms show ?thesis by (auto split: if_splits)
next
  case (DOUBLE d)
  with assms show ?thesis by auto
next
  case (STRING str)
  with assms show ?thesis by auto
next
  case (BOOL b)
  with assms show ?thesis by auto
next
  case NULL_VALUE
  with assms show ?thesis by auto
next
  case (OBJECT ob)
  with assms show ?thesis by (auto split: sum.splits)
next
  case (ARRAY array)
  with assms show ?thesis by (auto split: sum.splits option.splits)
qed

lemma convertProperties_keeps:
  "convertProperties m object = Inr m' \<Longrightarrow> map_of m k = Some v \<Longrightarrow> map_of m' k = Some v"
proof (induction object arbitrary: m)
  case Nil
  then show ?case by simp
next
  case (Cons a object)
  obtain property el where a: "a = (property, el)" by (cases a)
  from Cons.prems(1) a convertProperties_step [of m property el object m']
  obtain m1 where m1: "convertProperties m1 object = Inr m'"
    "m1 = m \<or> (\<exists>w. m1 = map_insert (property, w) m)" by blast
  from m1(2) Cons.prems(2) have "map_of m1 k = Some v"
    by (auto simp: map_insert_keeps)
  with Cons.IH m1(1) show ?case by blast
qed

lemma subset_chain: "A \<subseteq> insert p M \<Longrightarrow> B \<subseteq> A \<union> C \<Longrightarrow> B \<subseteq> M \<union> insert p C"
  by auto

lemma convertProperties_keys:
  "convertProperties m object = Inr m' \<Longrightarrow> fst ` set m' \<subseteq> fst ` set m \<union> fst ` set object"
proof (induction object arbitrary: m)
  case Nil
  then show ?case by simp
next
  case (Cons a object)
  obtain property el where a: "a = (property, el)" by (cases a)
  from Cons.prems(1) a convertProperties_step [of m property el object m']
  obtain m1 where m1: "convertProperties m1 object = Inr m'"
    "m1 = m \<or> (\<exists>w. m1 = map_insert (property, w) m)" by blast
  from m1(2) keys_map_insert [of _ m] have "fst ` set m1 \<subseteq> insert property (fst ` set m)"
    by (metis fst_conv subset_insertI subset_refl)
  moreover from Cons.IH m1(1) have "fst ` set m' \<subseteq> fst ` set m1 \<union> fst ` set object" by blast
  ultimately have "fst ` set m' \<subseteq> fst ` set m \<union> insert property (fst ` set object)"
    by (rule subset_chain)
  then show ?case using a by simp
qed


lemma parse_properties_keeps:
  "parse_properties s m payload = Inr (Some m') \<Longrightarrow> map_of m k = Some v \<Longrightarrow> map_of m' k = Some v"
  by (auto simp: parse_properties_def convertProperties_keeps split: if_splits option.splits sum.splits)

lemma parse_properties_keys:
  "parse_properties s m payload = Inr (Some m') \<Longrightarrow>
     fst ` set m' \<subseteq> fst ` set m \<union> (case parser s payload of Some object \<Rightarrow> fst ` set object | None \<Rightarrow> {})"
  using convertProperties_keys [of m _ m']
  by (auto simp: parse_properties_def split: if_splits option.splits sum.splits)

lemma keys_setProperties: "getKey ` set (setProperties m) = fst ` set m"
  by (simp add: setProperties_def Property_of_def image_image)

lemma NodePropertiesSetFromJson_stores:
  assumes "ValidNodeId s i" and "NodePropertiesSetFromJson s i payload = Inr (True, s')"
  shows "\<exists>m'. parse_properties s (getProperties (Node_properties (nodes s ! externalToInternal i))) payload
              = Inr (Some m')
            \<and> Node_properties (nodes s' ! externalToInternal i) = setProperties m'"
proof -
  from assms(1) have r: "externalToInternal i < length (nodes s)"
    by (simp add: ValidNodeId_def)
  from assms r show ?thesis
    by (auto simp: NodePropertiesSetFromJson_def Let_def split: sum.splits option.splits)
qed

text \<open>
  C3 says that the merging \<^verbatim>\<open>properties_set\<close> leaves the value of every key the entity
  already has. \<^verbatim>\<open>NodePropertiesSet(512, {name: "alex"})\<close> on the node \<^verbatim>\<open>existing\<close>,
  whose \<^verbatim>\<open>name\<close> is \<^verbatim>\<open>max\<close>, makes it \<^verbatim>\<open>alex\<close>.
\<close>

theorem NodePropertiesSet_overwrites_counterexample:
  "ValidNodeId (fixture rhs_first) 512
   \<and> getProperty ''name'' (Node_properties (nodes (fixture rhs_first) ! 2)) = String_any ''max''
   \<and> fst (NodePropertiesSet (fixture rhs_first) 512 [(''name'', String_any ''alex'')]) = True
   \<and> getProperty ''name''
        (Node_properties
          (nodes (snd (NodePropertiesSet (fixture rhs_first) 512 [(''name'', String_any ''alex'')])) ! 2))
      = String_any ''alex''"
  by (simp add: NodePropertiesSet_def getProperty_def getProperties_def setProperties_def map_merge_def
      shard_defs fixture_defs)

text \<open>
  C3, amended. On a valid id, \<^verbatim>\<open>NodePropertiesSet\<close> and \<^verbatim>\<open>RelationshipPropertiesSet\<close>
  with the map \<open>m\<close> return true and give every key of \<open>m\<close> the value it has in \<open>m\<close>; a key
  that is not in \<open>m\<close> keeps the value the entity had. \<^verbatim>\<open>NodePropertiesSetFromJson\<close>,
  when it returns true, leaves the value of every key the node already had and adds
  only keys of the payload.
\<close>

theorem properties_set_overlay:
  "(ValidNodeId s i \<longrightarrow>
      fst (NodePropertiesSet s i m)
      \<and> getProperty k (Node_properties (nodes (snd (NodePropertiesSet s i m)) ! externalToInternal i)) =
          (case map_of m k of
             Some v \<Rightarrow> v
           | None \<Rightarrow> getProperty k (Node_properties (nodes s ! externalToInternal i))))
   \<and> (ValidRelationshipId s i \<longrightarrow>
      fst (RelationshipPropertiesSet s i m)
      \<and> getProperty k
           (Rel_properties (relationships (snd (RelationshipPropertiesSet s i m)) ! externalToInternal i)) =
          (case map_of m k of
             Some v \<Rightarrow> v
           | None \<Rightarrow> getProperty k (Rel_properties (relationships s ! externalToInternal i))))
   \<and> (ValidNodeId s i \<and> NodePropertiesSetFromJson s i payload = Inr (True, s') \<longrightarrow>
      (k \<in> getKey ` set (Node_properties (nodes s ! externalToInternal i)) \<longrightarrow>
         getProperty k (Node_properties (nodes s' ! externalToInternal i)) =
         getProperty k (Node_properties (nodes s ! externalToInternal i)))
      \<and> getKey ` set (Node_properties (nodes s' ! externalToInternal i))
          \<subseteq> getKey ` set (Node_properties (nodes s ! externalToInternal i))
            \<union> (case parser s payload of Some object \<Rightarrow> fst ` set object | None \<Rightarrow> {}))"
proof (intro conjI impI)
  assume v: "ValidNodeId s i"
  then have r: "externalToInternal i < length (nodes s)" by (simp add: ValidNodeId_def)
  from v show "fst (NodePropertiesSet s i m)" by (simp add: NodePropertiesSet_def Let_def)
  from v r show "getProperty k (Node_properties (nodes (snd (NodePropertiesSet s i m)) ! externalToInternal i)) =
      (case map_of m k of Some v \<Rightarrow> v | None \<Rightarrow> getProperty k (Node_properties (nodes s ! externalToInternal i)))"
    by (simp add: NodePropertiesSet_def Let_def getProperty_merged)
next
  assume v: "ValidRelationshipId s i"
  then have r: "externalToInternal i < length (relationships s)" by (simp add: ValidRelationshipId_def)
  from v show "fst (RelationshipPropertiesSet s i m)" by (simp add: RelationshipPropertiesSet_def Let_def)
  from v r show "getProperty k
        (Rel_properties (relationships (snd (RelationshipPropertiesSet s i m)) ! externalToInternal i)) =
      (case map_of m k of Some v \<Rightarrow> v | None \<Rightarrow> getProperty k (Rel_properties (relationships s ! externalToInternal i)))"
    by (simp add: RelationshipPropertiesSet_def Let_def getProperty_merged)
next
  assume a: "ValidNodeId s i \<and> NodePropertiesSetFromJson s i payload = Inr (True, s')"
  let ?old = "Node_properties (nodes s ! externalToInternal i)"
  from a NodePropertiesSetFromJson_stores [of s i payload s']
  obtain m' where m': "parse_properties s (getProperties ?old) payload = Inr (Some m')"
    "Node_properties (nodes s' ! externalToInternal i) = setProperties m'" by blast
  show "getKey ` set (Node_properties (nodes s' ! externalToInternal i))
          \<subseteq> getKey ` set ?old \<union> (case parser s payload of Some object \<Rightarrow> fst ` set object | None \<Rightarrow> {})"
    using parse_properties_keys [OF m'(1)] by (simp add: m'(2) keys_setProperties keys_getProperties)
  assume "k \<in> getKey ` set ?old"
  then have "k \<in> fst ` set (entries ?old)" by (simp add: entries_def image_image)
  then obtain v where v: "map_of (entries ?old) k = Some v"
    by (metis map_of_eq_None_iff not_Some_eq)
  then have "map_of (getProperties ?old) k = Some v" by (simp add: map_of_getProperties)
  from parse_properties_keeps [OF m'(1) this] have "map_of m' k = Some v" .
  with v show "getProperty k (Node_properties (nodes s' ! externalToInternal i)) = getProperty k ?old"
    by (simp add: m'(2) entries_setProperties getProperty_map_of)
qed

theorem properties_set_overlay_witness:
  \<open>ValidNodeId (fixture rhs_first) 512 \<and> ValidRelationshipId (fixture rhs_first) 256
   \<and> NodePropertiesSetFromJson (fixture rhs_first) 512 ''{"name":"alex","age":55}'' =
       Inr (True, (fixture rhs_first)
         \<lparr>nodes := [Node_zero, Node_new 256 1 ''empty'' [],
                    Node_new 512 1 ''existing'' [(''age'', Int64_any 55), (''name'', String_any ''max'')]]\<rparr>)
   \<and> ''name'' \<in> getKey ` set (Node_properties (nodes (fixture rhs_first) ! externalToInternal 512))
   \<and> getProperty ''name''
        (Node_properties (nodes (snd (NodePropertiesSet (fixture rhs_first) 512 [(''name'', String_any ''alex'')]))
           ! externalToInternal 512)) = String_any ''alex''
   \<and> fst (RelationshipPropertiesSet (fixture rhs_first) 256 [(''name'', String_any ''alex'')])
   \<and> getProperty ''name''
        (Node_properties
          (nodes ((fixture rhs_first)
             \<lparr>nodes := [Node_zero, Node_new 256 1 ''empty'' [],
                        Node_new 512 1 ''existing'' [(''age'', Int64_any 55), (''name'', String_any ''max'')]]\<rparr>)
           ! externalToInternal 512)) = String_any ''max''\<close>
proof -
  let ?s' = "(fixture rhs_first)
         \<lparr>nodes := [Node_zero, Node_new 256 1 ''empty'' [],
                    Node_new 512 1 ''existing'' [(''age'', Int64_any 55), (''name'', String_any ''max'')]]\<rparr>"
  have v: "ValidNodeId (fixture rhs_first) 512" "ValidRelationshipId (fixture rhs_first) 256"
    by (simp_all add: shard_defs fixture_defs)
  have j: \<open>NodePropertiesSetFromJson (fixture rhs_first) 512 ''{"name":"alex","age":55}'' = Inr (True, ?s')\<close>
    by (simp add: NodePropertiesSetFromJson_def getProperties_def setProperties_def shard_defs fixture_defs)
  have k: "''name'' \<in> getKey ` set (Node_properties (nodes (fixture rhs_first) ! externalToInternal 512))"
    by (simp add: shard_defs fixture_defs)
  show ?thesis
    using v j k
      properties_set_overlay [of "fixture rhs_first" 512 "[(''name'', String_any ''alex'')]" "''name''"
        \<open>''{"name":"alex","age":55}''\<close> ?s']
      properties_set_overlay [of "fixture rhs_first" 256 "[(''name'', String_any ''alex'')]" "''name''"
        \<open>''{"name":"alex","age":55}''\<close> ?s']
    by (simp add: getProperty_def shard_defs fixture_defs)
qed

subsection \<open>C4: direction BOTH with an empty list of types\<close>

text \<open>
  C4 says that \<^verbatim>\<open>BOTH\<close> with an empty list of relationship types gives what the
  overloads without direction and types give. The node 256 of the fixture has one outgoing
  relationship: its degree is 1 and its list of ids has one entry, and with \<^verbatim>\<open>BOTH\<close> and
  the empty list the degree is 0 and the list is empty.
\<close>

theorem empty_type_list_counterexample:
  "NodeGetDegree (fixture rhs_first) 256 = Inr 1
   \<and> NodeGetDegree_types (fixture rhs_first) 256 BOTH [] = Inr 0
   \<and> NodeGetRelationshipsIDs (fixture rhs_first) 256 = Inr [\<lparr>node_id = 512, rel_id = 256\<rparr>]
   \<and> NodeGetRelationshipsIDs_types (fixture rhs_first) 256 BOTH [] = Inr []"
  by (simp add: NodeGetDegree_def NodeGetDegree_types_def NodeGetRelationshipsIDs_def
      NodeGetRelationshipsIDs_types_def at_def shard_defs fixture_defs)

text \<open>
  C4, amended. The overloads that take a list of types visit the requested types only:
  with an empty list, for every node id and every direction, the degree is 0 and the list
  of ids is empty. \<^verbatim>\<open>NodeGetRelationshipsIDs(id, BOTH)\<close>, the overload with a direction
  and no types, is \<^verbatim>\<open>NodeGetRelationshipsIDs(id)\<close>.
\<close>

theorem empty_type_list_selects_nothing:
  "NodeGetDegree_types s i d [] = Inr 0
   \<and> NodeGetRelationshipsIDs_types s i d [] = Inr []
   \<and> NodeGetRelationshipsIDs_dir s i BOTH = NodeGetRelationshipsIDs s i"
  by (simp add: NodeGetDegree_types_def NodeGetRelationshipsIDs_types_def NodeGetRelationshipsIDs_dir_def
      NodeGetRelationshipsIDs_def Let_def)

subsection \<open>C8: identity zero and absent keys\<close>

lemma NodeRemove_absent_key:
  "map_of (node_keys s) type = Some keys \<Longrightarrow> map_of keys key = None \<Longrightarrow>
     NodeRemove s type key = Inl end_iterator_dereference"
  by (simp add: NodeRemove_def Let_def)

lemma NodeRemove_unknown_type:
  "map_of (node_keys s) type = None \<Longrightarrow> NodeRemove s type key = Inr (False, s)"
  by (simp add: NodeRemove_def)

lemma zero_not_valid: "\<not> ValidNodeId s 0" "\<not> ValidRelationshipId s 0"
  by (simp_all add: ValidNodeId_def ValidRelationshipId_def)

lemma NodeGet_zero: "NodeGet s 0 = at (nodes s) 0" "NodeRemove_id s 0 = Inr (False, s)"
  by (simp_all add: NodeGet_def NodeRemove_id_def zero_not_valid)

text \<open>
  C8 asks that \<^verbatim>\<open>NodeGet(0)\<close> is the zero entity, that \<^verbatim>\<open>NodeRemove(0)\<close> and
  \<^verbatim>\<open>NodeRemove\<close> of an unknown type return false and change nothing, and that
  \<^verbatim>\<open>NodeRemove\<close> of a known type and an absent key returns false without a read past the
  index. On the shard with the type \<^verbatim>\<open>Node\<close> and no node, the first three hold and
  \<^verbatim>\<open>NodeRemove("Node", "missing")\<close> reads \<^verbatim>\<open>key_search->second\<close> at \<^verbatim>\<open>end()\<close>.
\<close>

theorem NodeRemove_absent_key_dereferences_end:
  "NodeGet (fixture_types rhs_first) 0 = Inr Node_zero
   \<and> NodeRemove_id (fixture_types rhs_first) 0 = Inr (False, fixture_types rhs_first)
   \<and> NodeRemove (fixture_types rhs_first) ''User'' ''missing'' = Inr (False, fixture_types rhs_first)
   \<and> map_of (node_keys (fixture_types rhs_first)) ''Node'' = Some []
   \<and> NodeRemove (fixture_types rhs_first) ''Node'' ''missing'' = Inl end_iterator_dereference"
  by (simp add: NodeGet_zero NodeRemove_def at_def fixture_types_def)

subsection \<open>C7: the results of NodeAdd\<close>

lemma addId_dense: "Types_dense t \<Longrightarrow> \<exists>r. addId t k i = Inr r"
proof (cases "ValidTypeId t k")
  case False
  then have "addId t k i = Inr (False, t)" by (simp add: addId_def)
  then show ?thesis by blast
next
  case True
  assume "Types_dense t"
  with True have "k \<in> fst ` set (ids_of_type t)"
    by (auto simp: Types_dense_def ValidTypeId_def)
  then obtain v where "map_of (ids_of_type t) k = Some v"
    by (metis map_of_eq_None_iff not_Some_eq)
  with True have "addId t k i = Inr (True, t\<lparr>ids_of_type := update_ids k (insert i) (ids_of_type t)\<rparr>)"
    by (simp add: addId_def at_map_def)
  then show ?thesis by blast
qed

lemma internalToExternal_nonzero:
  assumes "0 < n" "n < 2 ^ 56" "shard_id s < 2 ^ 8"
  shows "internalToExternal s n \<noteq> 0"
proof -
  have "n * 2 ^ 8 + shard_id s < 2 ^ 64" using assms by simp
  then have "internalToExternal s n = n * 2 ^ 8 + shard_id s"
    by (simp add: internalToExternal_def SHIFTED_BITS_def)
  with assms(1) show ?thesis by simp
qed

lemma NodeAdd_store_nonzero:
  assumes "NodeSlots_ok s" "Types_dense (node_types s)"
  shows "\<exists>i s'. NodeAdd_store s type node_type key m = Inr (i, s') \<and> i \<noteq> 0"
proof (cases "deleted_nodes s = {}")
  case True
  let ?e = "internalToExternal s (length (nodes s))"
  from assms(1) have nz: "?e \<noteq> 0"
    by (intro internalToExternal_nonzero) (simp_all add: NodeSlots_ok_def)
  from addId_dense [OF assms(2)] obtain r where "addId (node_types s) node_type ?e = Inr r" by blast
  with True nz show ?thesis by (simp add: NodeAdd_store_def Let_def)
next
  case False
  let ?n = "Min (deleted_nodes s)"
  let ?e = "internalToExternal s ?n"
  from assms(1) False have "?n \<in> deleted_nodes s" by (simp add: NodeSlots_ok_def)
  with assms(1) have n: "0 < ?n" "?n < length (nodes s)" "?n < 2 ^ 56" "shard_id s < 2 ^ 8"
    by (auto simp: NodeSlots_ok_def)
  then have nz: "?e \<noteq> 0" by (intro internalToExternal_nonzero)
  from addId_dense [OF assms(2)] obtain r where "addId (node_types s) node_type ?e = Inr r" by blast
  with False nz n(2) show ?thesis by (simp add: NodeAdd_store_def Let_def)
qed

text \<open>
  C7 says that \<^verbatim>\<open>NodeAdd\<close> returns 0 on a duplicate key, an unregistered type or a payload
  that does not parse, and a non-zero id otherwise. For the registered type \<^verbatim>\<open>Node\<close>, a
  new key and the payload \<^verbatim>\<open>{"tags":[1,"x"]}\<close>, which parses, the conversion of the
  second element of the array to \<^verbatim>\<open>int64_t\<close> throws: the call returns no id at all.
\<close>

theorem NodeAdd_mixed_array_counterexample:
  \<open>map_of (node_keys (fixture_types rhs_first)) ''Node'' = Some []
   \<and> parser (fixture_types rhs_first) ''{"tags":[1,"x"]}'' = Some [(''tags'', ARRAY [INT64 1, STRING ''x''])]
   \<and> NodeAdd (fixture_types rhs_first) ''Node'' 1 ''fresh'' ''{"tags":[1,"x"]}'' = Inl simdjson_error\<close>
  by (simp add: NodeAdd_def parse_properties_def json_parser_def fixture_types_def)

text \<open>
  C7, amended. \<^verbatim>\<open>NodeAdd\<close> returns 0 and leaves the shard as it is when the type name
  has no key index, when the key is in the index of the type, or when the payload is not
  empty and does not parse to an object. Otherwise, when the values of the payload
  convert, on a shard whose node slots are well formed and whose interner is dense, it
  returns a non-zero external id.
\<close>

theorem NodeAdd_result:
  "(map_of (node_keys s) type = None \<longrightarrow> NodeAdd s type node_type key properties = Inr (0, s))
   \<and> (\<forall>keys. map_of (node_keys s) type = Some keys \<and> map_of keys key \<noteq> None \<longrightarrow>
        NodeAdd s type node_type key properties = Inr (0, s))
   \<and> (properties \<noteq> [] \<and> parser s properties = None \<longrightarrow>
        NodeAdd s type node_type key properties = Inr (0, s))
   \<and> (\<forall>keys m. map_of (node_keys s) type = Some keys \<and> map_of keys key = None
        \<and> parse_properties s [] properties = Inr (Some m)
        \<and> NodeSlots_ok s \<and> Types_dense (node_types s) \<longrightarrow>
        (\<exists>i s'. NodeAdd s type node_type key properties = Inr (i, s') \<and> i \<noteq> 0))"
proof (intro conjI impI allI)
  assume "map_of (node_keys s) type = None"
  then show "NodeAdd s type node_type key properties = Inr (0, s)" by (simp add: NodeAdd_def)
next
  fix keys
  assume "map_of (node_keys s) type = Some keys \<and> map_of keys key \<noteq> None"
  then show "NodeAdd s type node_type key properties = Inr (0, s)" by (auto simp: NodeAdd_def)
next
  assume "properties \<noteq> [] \<and> parser s properties = None"
  then show "NodeAdd s type node_type key properties = Inr (0, s)"
    by (simp add: NodeAdd_def parse_properties_def split: option.splits)
next
  fix keys m
  assume a: "map_of (node_keys s) type = Some keys \<and> map_of keys key = None
        \<and> parse_properties s [] properties = Inr (Some m)
        \<and> NodeSlots_ok s \<and> Types_dense (node_types s)"
  then have "NodeAdd s type node_type key properties = NodeAdd_store s type node_type key m"
    by (simp add: NodeAdd_def)
  with a NodeAdd_store_nonzero [of s type node_type key m]
  show "\<exists>i s'. NodeAdd s type node_type key properties = Inr (i, s') \<and> i \<noteq> 0" by simp
qed

theorem NodeAdd_result_witness:
  \<open>map_of (node_keys (fixture_types rhs_first)) ''User'' = None
   \<and> NodeAdd (fixture_types rhs_first) ''User'' 2 ''k'' ''{}'' = Inr (0, fixture_types rhs_first)
   \<and> map_of (node_keys (fixture_nodes rhs_first)) ''Node'' = Some [(''empty'', 256), (''existing'', 512)]
   \<and> map_of [(''empty'', 256), (''existing'', 512::nat)] ''empty'' \<noteq> None
   \<and> NodeAdd (fixture_nodes rhs_first) ''Node'' 1 ''empty'' ''{}'' = Inr (0, fixture_nodes rhs_first)
   \<and> ''{"name":'' \<noteq> [] \<and> parser (fixture_types rhs_first) ''{"name":'' = None
   \<and> NodeAdd (fixture_types rhs_first) ''Node'' 1 ''k'' ''{"name":'' = Inr (0, fixture_types rhs_first)
   \<and> map_of (node_keys (fixture_nodes rhs_first)) ''Node'' = Some [(''empty'', 256), (''existing'', 512)]
   \<and> map_of [(''empty'', 256), (''existing'', 512::nat)] ''k'' = None
   \<and> parse_properties (fixture_nodes rhs_first) [] ''{"name":"max"}'' = Inr (Some [(''name'', String_any ''max'')])
   \<and> NodeSlots_ok (fixture_nodes rhs_first) \<and> Types_dense (node_types (fixture_nodes rhs_first))
   \<and> (\<exists>i s'. NodeAdd (fixture_nodes rhs_first) ''Node'' 1 ''k'' ''{"name":"max"}'' = Inr (i, s') \<and> i \<noteq> 0)\<close>
proof -
  have h1: "map_of (node_keys (fixture_types rhs_first)) ''User'' = None"
    by (simp add: fixture_defs)
  have h2: "map_of (node_keys (fixture_nodes rhs_first)) ''Node'' = Some [(''empty'', 256), (''existing'', 512)]"
    "map_of [(''empty'', 256), (''existing'', 512::nat)] ''empty'' \<noteq> None"
    by (simp_all add: fixture_defs)
  have h3: \<open>''{"name":'' \<noteq> []\<close> \<open>parser (fixture_types rhs_first) ''{"name":'' = None\<close>
    by (simp_all add: fixture_defs json_parser_def)
  have h4: "map_of [(''empty'', 256), (''existing'', 512::nat)] ''k'' = None"
    \<open>parse_properties (fixture_nodes rhs_first) [] ''{"name":"max"}'' = Inr (Some [(''name'', String_any ''max'')])\<close>
    "NodeSlots_ok (fixture_nodes rhs_first)" "Types_dense (node_types (fixture_nodes rhs_first))"
    by (simp_all add: fixture_defs json_parser_def parse_properties_def map_insert_def
        NodeSlots_ok_def Types_dense_def)
  from NodeAdd_result [of "fixture_types rhs_first" "''User''" 2 "''k''" "''{}''"] h1
  have r1: "NodeAdd (fixture_types rhs_first) ''User'' 2 ''k'' ''{}'' = Inr (0, fixture_types rhs_first)"
    by blast
  from NodeAdd_result [of "fixture_nodes rhs_first" "''Node''" 1 "''empty''" "''{}''"] h2
  have r2: "NodeAdd (fixture_nodes rhs_first) ''Node'' 1 ''empty'' ''{}'' = Inr (0, fixture_nodes rhs_first)"
    by blast
  from NodeAdd_result [of "fixture_types rhs_first" "''Node''" 1 "''k''" \<open>''{"name":''\<close>] h3
  have r3: \<open>NodeAdd (fixture_types rhs_first) ''Node'' 1 ''k'' ''{"name":'' = Inr (0, fixture_types rhs_first)\<close>
    by blast
  from NodeAdd_result [of "fixture_nodes rhs_first" "''Node''" 1 "''k''" \<open>''{"name":"max"}''\<close>] h2(1) h4
  have r4: \<open>\<exists>i s'. NodeAdd (fixture_nodes rhs_first) ''Node'' 1 ''k'' ''{"name":"max"}'' = Inr (i, s') \<and> i \<noteq> 0\<close>
    by blast
  from h1 h2 h3 h4 r1 r2 r3 r4 show ?thesis by blast
qed

subsection \<open>C2: what the deleted sets hold\<close>

text \<open>
  C2 asks that every element of \<^verbatim>\<open>deleted_relationships\<close> is an internal index inside
  the vector, of a slot that holds the zero entity, and that the next add reuses the
  smallest element. \<^verbatim>\<open>NodeRemove("Node", "existing")\<close> on the fixture walks the incoming
  entry of the node and adds the external id 256 of the relationship to the set: the
  vector has two slots, slot 1 is emptied and is not in the set, and the next
  \<^verbatim>\<open>RelationshipAddEmptySameShard\<close> throws at \<^verbatim>\<open>relationships.at(256)\<close>.
\<close>

theorem NodeRemove_records_external_id:
  "NodeRemove (fixture ord) ''Node'' ''existing'' = Inr (True, fixture_removed ord)
   \<and> deleted_relationships (fixture_removed ord) = {256}
   \<and> length (relationships (fixture_removed ord)) = 2
   \<and> relationships (fixture_removed ord) ! 1 = Relationship_zero
   \<and> ValidNodeId (fixture_removed ord) 256
   \<and> RelationshipAddEmptySameShard (fixture_removed ord) 1 256 256 = Inl out_of_range"
proof -
  have "NodeRemove (fixture ord) ''Node'' ''existing'' = Inr (True, fixture_removed ord)"
    by (simp add: NodeRemove_def getTypeId_def removeId_def node_keys_erase_def at_def
        remove_from_group_def CalculateShardId_def MASK_def fixture_removed_def
        shard_defs fixture_defs)
  moreover have "RelationshipAddEmptySameShard (fixture_removed ord) 1 256 256 = Inl out_of_range"
    by (simp add: RelationshipAddEmptySameShard_def fixture_removed_def shard_defs fixture_defs)
  moreover have "ValidNodeId (fixture_removed ord) 256"
    by (simp add: fixture_removed_def shard_defs fixture_defs)
  ultimately show ?thesis
    by (simp add: fixture_removed_def fixture_defs)
qed

subsection \<open>C5: the cross-shard relationship add\<close>

lemma find_group_modify:
  "find_group t gs = Some g \<Longrightarrow> find_group t (modify_group t f gs) = Some (g\<lparr>ids := f (ids g)\<rparr>)"
  by (induction gs) (auto simp: find_group_def)

lemma find_group_append_new:
  "find_group t gs = None \<Longrightarrow> find_group t (gs @ [\<lparr>rel_type_id = t, ids = l\<rparr>]) = Some \<lparr>rel_type_id = t, ids = l\<rparr>"
  by (induction gs) (auto simp: find_group_def)

lemma add_to_group_last:
  "\<exists>g. find_group t (add_to_group t entry gs) = Some g \<and> ids g \<noteq> [] \<and> last (ids g) = entry"
proof (cases "find_group t gs")
  case None
  then show ?thesis by (simp add: add_to_group_def find_group_append_new)
next
  case (Some g)
  then show ?thesis by (simp add: add_to_group_def find_group_modify)
qed

lemma Relationship_store_ok:
  assumes "RelSlots_ok s"
  shows "\<exists>r s1 n. Relationship_store s t id1 id2 m = Inr (r, s1)
         \<and> r = internalToExternal s n
         \<and> n < length (relationships s1)
         \<and> relationships s1 ! n = Relationship_new r id1 id2 t m
         \<and> outgoing_relationships s1 = outgoing_relationships s
         \<and> relationship_types s1 = relationship_types s"
proof (cases "deleted_relationships s = {}")
  case True
  let ?n = "length (relationships s)"
  let ?r = "internalToExternal s ?n"
  let ?s1 = "s\<lparr>relationships := relationships s @ [Relationship_new ?r id1 id2 t m]\<rparr>"
  from True have "Relationship_store s t id1 id2 m = Inr (?r, ?s1)"
    by (simp add: Relationship_store_def Let_def)
  then show ?thesis
    by (intro exI [of _ ?r] exI [of _ ?s1] exI [of _ ?n]) simp
next
  case False
  let ?n = "Min (deleted_relationships s)"
  let ?r = "internalToExternal s ?n"
  let ?s1 = "s\<lparr>relationships := (relationships s)[?n := Relationship_new ?r id1 id2 t m],
              deleted_relationships := deleted_relationships s - {?n}\<rparr>"
  from assms False have "?n \<in> deleted_relationships s" by (simp add: RelSlots_ok_def)
  with assms have n: "?n < length (relationships s)" by (auto simp: RelSlots_ok_def)
  with False have "Relationship_store s t id1 id2 m = Inr (?r, ?s1)"
    by (simp add: Relationship_store_def Let_def)
  with n show ?thesis
    by (intro exI [of _ ?r] exI [of _ ?s1] exI [of _ ?n]) simp
qed

lemma RelationshipAddEmptyToOutgoing_ok:
  assumes "RelSlots_ok s" "Types_dense (relationship_types s)"
    "externalToInternal id1 < length (outgoing_relationships s)"
  shows "\<exists>r s1 n. RelationshipAddEmptyToOutgoing s t id1 id2 = Inr (r, s1)
         \<and> r = internalToExternal s n
         \<and> n < length (relationships s1)
         \<and> relationships s1 ! n = Relationship_new r id1 id2 t []"
proof -
  from Relationship_store_ok [OF assms(1), of t id1 id2 "[]"]
  obtain r s1 n where st: "Relationship_store s t id1 id2 [] = Inr (r, s1)"
    "r = internalToExternal s n" "n < length (relationships s1)"
    "relationships s1 ! n = Relationship_new r id1 id2 t []"
    "outgoing_relationships s1 = outgoing_relationships s"
    "relationship_types s1 = relationship_types s" by blast
  let ?s2 = "s1\<lparr>outgoing_relationships := (outgoing_relationships s1)[externalToInternal id1 :=
                add_to_group t \<lparr>node_id = id2, rel_id = r\<rparr>
                  (outgoing_relationships s1 ! externalToInternal id1)]\<rparr>"
  from addId_dense [OF assms(2), of t r] obtain a where a: "addId (relationship_types s) t r = Inr a"
    by blast
  from st assms(3) a
  have "RelationshipAddEmptyToOutgoing s t id1 id2 = Inr (r, ?s2\<lparr>relationship_types := snd a\<rparr>)"
    by (simp add: RelationshipAddEmptyToOutgoing_def Let_def)
  with st(2,3,4) show ?thesis
    by (intro exI [of _ r] exI [of _ "?s2\<lparr>relationship_types := snd a\<rparr>"] exI [of _ n]) simp
qed

lemma RelationshipAddToIncoming_ok:
  assumes "externalToInternal id2 < length (incoming_relationships s)"
  shows "\<exists>s2 g. RelationshipAddToIncoming s t r id1 id2 = Inr (r, s2)
         \<and> find_group t (incoming_relationships s2 ! externalToInternal id2) = Some g
         \<and> ids g \<noteq> [] \<and> last (ids g) = \<lparr>node_id = id1, rel_id = r\<rparr>"
proof -
  let ?s2 = "s\<lparr>incoming_relationships := (incoming_relationships s)[externalToInternal id2 :=
               add_to_group t \<lparr>node_id = id1, rel_id = r\<rparr>
                 (incoming_relationships s ! externalToInternal id2)]\<rparr>"
  from assms have "RelationshipAddToIncoming s t r id1 id2 = Inr (r, ?s2)"
    by (simp add: RelationshipAddToIncoming_def Let_def)
  moreover from add_to_group_last [of t "\<lparr>node_id = id1, rel_id = r\<rparr>" "incoming_relationships s ! externalToInternal id2"]
  obtain g where "find_group t (add_to_group t \<lparr>node_id = id1, rel_id = r\<rparr>
      (incoming_relationships s ! externalToInternal id2)) = Some g"
    "ids g \<noteq> []" "last (ids g) = \<lparr>node_id = id1, rel_id = r\<rparr>" by blast
  ultimately show ?thesis using assms
    by (intro exI [of _ ?s2] exI [of _ g]) simp
qed


text \<open>
  The peered add on well-formed shards. For a relationship of a known type between nodes
  of two shards that the container has: when an endpoint is not valid on its shard the
  result is 0 and the container is as before; when both are valid, on shards whose
  relationship slots and adjacency vectors are well formed, the result is the id that
  \<^verbatim>\<open>RelationshipAddEmptyToOutgoing\<close> allocates on the shard of the starting node (the id of
  the record it stores there), and the entry that \<^verbatim>\<open>RelationshipAddToIncoming\<close> appends
  to the group of the type on the ending node carries that id. So the function does what
  is asked of it as long as \<^verbatim>\<open>deleted_relationships\<close> holds slots of the vector.
\<close>

lemma RelationshipAddEmptyPeered_result:
  assumes "me < length c" and "ValidTypeId (relationship_types (c ! me)) t"
    and "CalculateShardId id1 < length c" and "CalculateShardId id2 < length c"
  shows "(\<not> ValidNodeId (c ! CalculateShardId id1) id1 \<or> \<not> ValidNodeId (c ! CalculateShardId id2) id2 \<longrightarrow>
            RelationshipAddEmptyPeered c me t id1 id2 = Inr (0, c))
       \<and> (ValidNodeId (c ! CalculateShardId id1) id1 \<and> ValidNodeId (c ! CalculateShardId id2) id2
          \<and> CalculateShardId id1 \<noteq> CalculateShardId id2
          \<and> RelSlots_ok (c ! CalculateShardId id1) \<and> Types_dense (relationship_types (c ! CalculateShardId id1))
          \<and> Adjacency_ok (c ! CalculateShardId id1) \<and> Adjacency_ok (c ! CalculateShardId id2) \<longrightarrow>
          (\<exists>r s1 s2 n g.
              RelationshipAddEmptyToOutgoing (c ! CalculateShardId id1) t id1 id2 = Inr (r, s1)
            \<and> RelationshipAddToIncoming (c ! CalculateShardId id2) t r id1 id2 = Inr (r, s2)
            \<and> RelationshipAddEmptyPeered c me t id1 id2 =
                Inr (r, c[CalculateShardId id1 := s1, CalculateShardId id2 := s2])
            \<and> r = internalToExternal (c ! CalculateShardId id1) n
            \<and> n < length (relationships s1)
            \<and> relationships s1 ! n = Relationship_new r id1 id2 t []
            \<and> find_group t (incoming_relationships s2 ! externalToInternal id2) = Some g
            \<and> ids g \<noteq> [] \<and> last (ids g) = \<lparr>node_id = id1, rel_id = r\<rparr>))"
proof (intro conjI impI)
  assume "\<not> ValidNodeId (c ! CalculateShardId id1) id1 \<or> \<not> ValidNodeId (c ! CalculateShardId id2) id2"
  with assms show "RelationshipAddEmptyPeered c me t id1 id2 = Inr (0, c)"
    by (auto simp: RelationshipAddEmptyPeered_def Let_def)
next
  let ?k1 = "CalculateShardId id1" and ?k2 = "CalculateShardId id2"
  assume a: "ValidNodeId (c ! ?k1) id1 \<and> ValidNodeId (c ! ?k2) id2 \<and> ?k1 \<noteq> ?k2
          \<and> RelSlots_ok (c ! ?k1) \<and> Types_dense (relationship_types (c ! ?k1))
          \<and> Adjacency_ok (c ! ?k1) \<and> Adjacency_ok (c ! ?k2)"
  then have r1: "externalToInternal id1 < length (outgoing_relationships (c ! ?k1))"
    and r2: "externalToInternal id2 < length (incoming_relationships (c ! ?k2))"
    by (simp_all add: ValidNodeId_def Adjacency_ok_def)
  from a r1 RelationshipAddEmptyToOutgoing_ok [of "c ! ?k1" id1 t id2]
  obtain r s1 n where o: "RelationshipAddEmptyToOutgoing (c ! ?k1) t id1 id2 = Inr (r, s1)"
    "r = internalToExternal (c ! ?k1) n" "n < length (relationships s1)"
    "relationships s1 ! n = Relationship_new r id1 id2 t []" by blast
  from r2 RelationshipAddToIncoming_ok [of id2 "c ! ?k2" t r id1]
  obtain s2 g where i: "RelationshipAddToIncoming (c ! ?k2) t r id1 id2 = Inr (r, s2)"
    "find_group t (incoming_relationships s2 ! externalToInternal id2) = Some g"
    "ids g \<noteq> []" "last (ids g) = \<lparr>node_id = id1, rel_id = r\<rparr>" by blast
  from a have ne: "?k1 \<noteq> ?k2" by simp
  from assms a o(1) i(1) ne
  have "RelationshipAddEmptyPeered c me t id1 id2 = Inr (r, c[?k1 := s1, ?k2 := s2])"
    by (simp add: RelationshipAddEmptyPeered_def Let_def)
  with o i show "\<exists>r s1 s2 n g.
              RelationshipAddEmptyToOutgoing (c ! ?k1) t id1 id2 = Inr (r, s1)
            \<and> RelationshipAddToIncoming (c ! ?k2) t r id1 id2 = Inr (r, s2)
            \<and> RelationshipAddEmptyPeered c me t id1 id2 = Inr (r, c[?k1 := s1, ?k2 := s2])
            \<and> r = internalToExternal (c ! ?k1) n
            \<and> n < length (relationships s1)
            \<and> relationships s1 ! n = Relationship_new r id1 id2 t []
            \<and> find_group t (incoming_relationships s2 ! externalToInternal id2) = Some g
            \<and> ids g \<noteq> [] \<and> last (ids g) = \<lparr>node_id = id1, rel_id = r\<rparr>"
    by blast
qed

lemma fixture_container_facts:
  "0 < length (fixture_container ord)"
  "ValidTypeId (relationship_types (fixture_container ord ! 0)) 1"
  "CalculateShardId 256 = 0" "CalculateShardId 257 = 1" "CalculateShardId 769 = 1"
  "CalculateShardId 256 < length (fixture_container ord)"
  "CalculateShardId 257 < length (fixture_container ord)"
  "CalculateShardId 769 < length (fixture_container ord)"
  "ValidNodeId (fixture_container ord ! 0) 256"
  "ValidNodeId (fixture_container ord ! 1) 257"
  "\<not> ValidNodeId (fixture_container ord ! 1) 769"
  "RelSlots_ok (fixture_container ord ! 0)"
  "Types_dense (relationship_types (fixture_container ord ! 0))"
  "Adjacency_ok (fixture_container ord ! 0)"
  "Adjacency_ok (fixture_container ord ! 1)"
  by (simp_all add: fixture_container_def fixture_peer_def fixture_defs shard_defs CalculateShardId_def
      MASK_def RelSlots_ok_def Types_dense_def Adjacency_ok_def)

text \<open>The two cases on the container of the fixture, before any remove.\<close>

lemma RelationshipAddEmptyPeered_result_fixture:
  "0 < length (fixture_container rhs_first)
   \<and> ValidTypeId (relationship_types (fixture_container rhs_first ! 0)) 1
   \<and> CalculateShardId 256 < length (fixture_container rhs_first)
   \<and> CalculateShardId 257 < length (fixture_container rhs_first)
   \<and> CalculateShardId 769 < length (fixture_container rhs_first)
   \<and> \<not> ValidNodeId (fixture_container rhs_first ! CalculateShardId 769) 769
   \<and> RelationshipAddEmptyPeered (fixture_container rhs_first) 0 1 256 769 = Inr (0, fixture_container rhs_first)
   \<and> ValidNodeId (fixture_container rhs_first ! CalculateShardId 256) 256
   \<and> ValidNodeId (fixture_container rhs_first ! CalculateShardId 257) 257
   \<and> CalculateShardId 256 \<noteq> CalculateShardId 257
   \<and> RelSlots_ok (fixture_container rhs_first ! CalculateShardId 256)
   \<and> Types_dense (relationship_types (fixture_container rhs_first ! CalculateShardId 256))
   \<and> Adjacency_ok (fixture_container rhs_first ! CalculateShardId 256)
   \<and> Adjacency_ok (fixture_container rhs_first ! CalculateShardId 257)
   \<and> (\<exists>c'. RelationshipAddEmptyPeered (fixture_container rhs_first) 0 1 256 257 = Inr (256, c')
          \<and> incoming_relationships (c' ! 1) ! 1 = [\<lparr>rel_type_id = 1, ids = [\<lparr>node_id = 256, rel_id = 256\<rparr>]\<rparr>])"
proof -
  note f = fixture_container_facts
  have p: "RelationshipAddEmptyPeered (fixture_container rhs_first) 0 1 256 257 =
      Inr (256, (fixture_container rhs_first)
        [0 := (fixture_nodes rhs_first)
           \<lparr>relationships := [Relationship_zero, Relationship_new 256 256 257 1 []],
            outgoing_relationships := [[], [\<lparr>rel_type_id = 1, ids = [\<lparr>node_id = 257, rel_id = 256\<rparr>]\<rparr>], []],
            relationship_types := \<lparr>type_to_id = [([], 0), (''KNOWS'', 1)],
                                   id_to_type = [(0, []), (1, ''KNOWS'')],
                                   ids_of_type = [(0, {}), (1, {256})]\<rparr>\<rparr>,
         1 := (fixture_peer rhs_first)
           \<lparr>incoming_relationships := [[], [\<lparr>rel_type_id = 1, ids = [\<lparr>node_id = 256, rel_id = 256\<rparr>]\<rparr>], []]\<rparr>])"
    by (simp add: RelationshipAddEmptyPeered_def RelationshipAddEmptyToOutgoing_def
        RelationshipAddToIncoming_def fixture_container_def fixture_peer_def fixture_defs shard_defs
        CalculateShardId_def MASK_def)
  note r1 = RelationshipAddEmptyPeered_result [where c = "fixture_container rhs_first" and me = 0
      and t = 1 and ?id1.0 = 256 and ?id2.0 = 769, OF f(1) f(2) f(6) f(8)]
  note r2 = RelationshipAddEmptyPeered_result [where c = "fixture_container rhs_first" and me = 0
      and t = 1 and ?id1.0 = 256 and ?id2.0 = 257, OF f(1) f(2) f(6) f(7)]
  from r1 f(5) f(11) [of rhs_first]
  have z: "RelationshipAddEmptyPeered (fixture_container rhs_first) 0 1 256 769 = Inr (0, fixture_container rhs_first)"
    by simp
  have h: "ValidNodeId (fixture_container rhs_first ! CalculateShardId 256) 256
     \<and> ValidNodeId (fixture_container rhs_first ! CalculateShardId 257) 257
     \<and> CalculateShardId 256 \<noteq> CalculateShardId 257
     \<and> RelSlots_ok (fixture_container rhs_first ! CalculateShardId 256)
     \<and> Types_dense (relationship_types (fixture_container rhs_first ! CalculateShardId 256))
     \<and> Adjacency_ok (fixture_container rhs_first ! CalculateShardId 256)
     \<and> Adjacency_ok (fixture_container rhs_first ! CalculateShardId 257)"
    using f by simp
  from r2 h have e: "\<exists>r c'. RelationshipAddEmptyPeered (fixture_container rhs_first) 0 1 256 257 = Inr (r, c')"
    by blast
  from p z f h e show ?thesis by (simp add: fixture_container_def)
qed

text \<open>
  C5 asks that the peered add of a relationship of a known type between two valid
  endpoints returns the external id allocated on the shard of the starting node, and that
  the incoming entry on the shard of the ending node carries that id. In the container
  whose shard 0 has run \<^verbatim>\<open>NodeRemove("Node", "existing")\<close> on the fixture, the type 1 is
  known, the node 256 is valid on shard 0 and the node 257 is valid on shard 1, and
  \<^verbatim>\<open>RelationshipAddEmptyPeered(1, 256, 257)\<close> returns no id: the remove has left the
  external id 256 in \<^verbatim>\<open>deleted_relationships\<close> (the defect of C2), so
  \<^verbatim>\<open>RelationshipAddEmptyToOutgoing\<close> takes 256 as the slot to reuse and throws at
  \<^verbatim>\<open>relationships.at(256)\<close>. No relationship record is stored and no incoming entry is
  appended.
\<close>

theorem RelationshipAddEmptyPeered_after_NodeRemove:
  "NodeRemove (fixture ord) ''Node'' ''existing'' = Inr (True, fixture_removed ord)
   \<and> removed_container ord ! 0 = fixture_removed ord
   \<and> length (removed_container ord) = 4
   \<and> ValidTypeId (relationship_types (removed_container ord ! 0)) 1
   \<and> CalculateShardId 256 = 0 \<and> CalculateShardId 257 = 1
   \<and> ValidNodeId (removed_container ord ! 0) 256
   \<and> ValidNodeId (removed_container ord ! 1) 257
   \<and> RelationshipAddEmptyPeered (removed_container ord) 0 1 256 257 = Inl out_of_range
   \<and> map relationships (removed_container ord) =
       [[Relationship_zero, Relationship_zero], [Relationship_zero], [Relationship_zero], [Relationship_zero]]
   \<and> incoming_relationships (removed_container ord ! 1) = [[], [], []]"
proof -
  have "RelationshipAddEmptyPeered (removed_container ord) 0 1 256 257 = Inl out_of_range"
    by (simp add: RelationshipAddEmptyPeered_def RelationshipAddEmptyToOutgoing_def
        removed_container_def fixture_removed_def fixture_peer_def fixture_defs shard_defs
        CalculateShardId_def MASK_def)
  moreover have "ValidNodeId (removed_container ord ! 0) 256" "ValidNodeId (removed_container ord ! 1) 257"
    "ValidTypeId (relationship_types (removed_container ord ! 0)) 1"
    by (simp_all add: removed_container_def fixture_removed_def fixture_peer_def fixture_defs shard_defs)
  moreover have "CalculateShardId 256 = 0" "CalculateShardId 257 = 1"
    by (simp_all add: CalculateShardId_def MASK_def)
  moreover have "map relationships (removed_container ord) =
       [[Relationship_zero, Relationship_zero], [Relationship_zero], [Relationship_zero], [Relationship_zero]]"
    "incoming_relationships (removed_container ord ! 1) = [[], [], []]"
    by (simp_all add: removed_container_def fixture_removed_def fixture_peer_def fixture_idle_def fixture_defs)
  ultimately show ?thesis
    using fixture_removed_built [of ord] by (simp add: removed_container_def)
qed

subsection \<open>C6: the cross-shard node remove\<close>

lemmas container_defs = fixture_container_def fixture_peer_def fixture_idle_def with_likes_def
  RelationshipTypeInsert_def addTypeId_def crossed_one_def crossed_def crossed_after_def

lemma crossed_built:
  "RelationshipAddEmptyPeered (map with_likes (fixture_container ord)) 0 1 256 257 = Inr (256, crossed_one ord)"
  "RelationshipAddEmptyPeered (crossed_one ord) 0 2 256 513 = Inr (512, crossed ord)"
  by (simp_all add: RelationshipAddEmptyPeered_def RelationshipAddEmptyToOutgoing_def
      RelationshipAddToIncoming_def container_defs fixture_defs shard_defs CalculateShardId_def MASK_def)

lemma crossed_remove:
  "NodeRemovePeered b (crossed ord) 0 256 = Inr (False, crossed_after ord)"
  by (simp add: NodeRemovePeered_def incoming_future_def outgoing_future_def incoming_join_def outgoing_join_def NodeRemoveGetIncoming_def
      NodeRemoveGetOutgoing_def at_def remove_from_group_def
      container_defs fixture_defs shard_defs CalculateShardId_def MASK_def)


text \<open>No leg of a fan-out touches the node store of the shard it runs on.\<close>

lemma NodeRemoveDeleteIncoming_nodes_frame:
  "node_slots (snd (NodeRemoveDeleteIncoming_nodes i t ns s)) = node_slots s"
  by (induction ns arbitrary: s) (simp_all add: Let_def node_slots_def)

lemma NodeRemoveDeleteIncoming_frame:
  "node_slots (snd (NodeRemoveDeleteIncoming i m s)) = node_slots s"
proof (induction m arbitrary: s)
  case Nil
  show ?case by simp
next
  case (Cons a m)
  obtain e s' where r: "NodeRemoveDeleteIncoming_nodes i (fst a) (snd a) s = (e, s')"
    by (cases "NodeRemoveDeleteIncoming_nodes i (fst a) (snd a) s")
  with NodeRemoveDeleteIncoming_nodes_frame [of i "fst a" "snd a" s]
  have f: "node_slots s' = node_slots s" by simp
  from r f Cons.IH [of s'] show ?case by (cases e) simp_all
qed

lemma delete_matching_frame:
  "node_slots (snd (snd (delete_matching i t l s))) = node_slots s
   \<and> outgoing_relationships (snd (snd (delete_matching i t l s))) = outgoing_relationships s"
proof (induction l arbitrary: s)
  case Nil
  show ?case by simp
next
  case (Cons entry l)
  show ?case
  proof (cases "node_id entry = i")
    case False
    with Cons.IH [of s] show ?thesis by (auto split: prod.splits)
  next
    case True
    let ?s1 = "s\<lparr>deleted_relationships := insert (externalToInternal (rel_id entry)) (deleted_relationships s)\<rparr>"
    show ?thesis
    proof (cases "removeId (relationship_types ?s1) t (rel_id entry)")
      case (Inl e)
      with True show ?thesis by (simp add: Let_def node_slots_def)
    next
      case (Inr r)
      let ?s3 = "?s1\<lparr>relationship_types := snd r,
                     relationships := (relationships ?s1)[externalToInternal (rel_id entry) := Relationship_zero]\<rparr>"
      from Cons.IH [of ?s3] True Inr show ?thesis by (simp add: Let_def node_slots_def)
    qed
  qed
qed

lemma NodeRemoveDeleteOutgoing_nodes_frame:
  "node_slots (snd (NodeRemoveDeleteOutgoing_nodes i t ns s)) = node_slots s"
proof (induction ns arbitrary: s)
  case Nil
  show ?case by simp
next
  case (Cons n ns)
  let ?k = "externalToInternal n"
  show ?case
  proof (cases "?k < length (outgoing_relationships s)")
    case False
    then show ?thesis by (simp add: Let_def)
  next
    case True
    show ?thesis
    proof (cases "find_group t (outgoing_relationships s ! ?k)")
      case None
      with True Cons.IH [of s] show ?thesis by (simp add: Let_def)
    next
      case (Some g)
      obtain e kept s' where d: "delete_matching i t (ids g) s = (e, kept, s')"
        by (cases "delete_matching i t (ids g) s") auto
      with delete_matching_frame [of i t "ids g" s] have f: "node_slots s' = node_slots s" by simp
      show ?thesis
      proof (cases e)
        case None
        let ?s2 = "s'\<lparr>outgoing_relationships := (outgoing_relationships s')[?k :=
                     modify_group t (\<lambda>l. kept) (outgoing_relationships s' ! ?k)]\<rparr>"
        have "node_slots ?s2 = node_slots s" using f by (simp add: node_slots_def)
        with Cons.IH [of ?s2] True Some d None show ?thesis by (simp add: Let_def)
      next
        case (Some x)
        with True \<open>find_group t (outgoing_relationships s ! ?k) = Some g\<close> d f show ?thesis
          by (simp add: Let_def node_slots_def)
      qed
    qed
  qed
qed

lemma NodeRemoveDeleteOutgoing_frame:
  "node_slots (snd (NodeRemoveDeleteOutgoing i m s)) = node_slots s"
proof (induction m arbitrary: s)
  case Nil
  show ?case by simp
next
  case (Cons a m)
  obtain e s' where r: "NodeRemoveDeleteOutgoing_nodes i (fst a) (snd a) s = (e, s')"
    by (cases "NodeRemoveDeleteOutgoing_nodes i (fst a) (snd a) s")
  with NodeRemoveDeleteOutgoing_nodes_frame [of i "fst a" "snd a" s]
  have f: "node_slots s' = node_slots s" by simp
  from r f Cons.IH [of s'] show ?case by (cases e) simp_all
qed

lemma fan_out_frame:
  assumes "\<And>g s. node_slots (snd (leg g s)) = node_slots s"
  shows "map node_slots (snd (fan_out leg m c)) = map node_slots c"
proof (induction m arbitrary: c)
  case Nil
  show ?case by simp
next
  case (Cons entry m)
  show ?case
  proof (cases "fst entry < length c")
    case False
    with Cons.IH [of c] show ?thesis by (auto simp: Let_def split: prod.splits)
  next
    case True
    obtain e s' where l: "leg (snd entry) (c ! fst entry) = (e, s')"
      by (cases "leg (snd entry) (c ! fst entry)")
    with assms [of "snd entry" "c ! fst entry"] have "node_slots s' = node_slots (c ! fst entry)" by simp
    with True have "map node_slots (c[fst entry := s']) = map node_slots c"
      by (simp add: map_update list_update_same_conv)
    with Cons.IH [of "c[fst entry := s']"] True l show ?thesis
      by (auto simp: Let_def split: prod.splits)
  qed
qed

lemma joins_frame:
  "map node_slots (snd (incoming_join c0 k i c)) = map node_slots c"
  "map node_slots (snd (outgoing_join c0 k i c)) = map node_slots c"
  by (simp_all add: incoming_join_def outgoing_join_def fan_out_frame NodeRemoveDeleteIncoming_frame
      NodeRemoveDeleteOutgoing_frame split: sum.splits)


text \<open>A leg whose shard no other leg names is in the container as it ran.\<close>

lemma fan_out_length: "length (snd (fan_out leg m c)) = length c"
proof (induction m arbitrary: c)
  case Nil
  show ?case by simp
next
  case (Cons entry m)
  show ?case
  proof (cases "fst entry < length c")
    case False
    with Cons.IH [of c] show ?thesis by (auto simp: Let_def split: prod.splits)
  next
    case True
    obtain e s' where l: "leg (snd entry) (c ! fst entry) = (e, s')"
      by (cases "leg (snd entry) (c ! fst entry)")
    from Cons.IH [of "c[fst entry := s']"] True l show ?thesis
      by (auto simp: Let_def split: prod.splits)
  qed
qed

lemma fan_out_untouched:
  "k \<notin> fst ` set m \<Longrightarrow> snd (fan_out leg m c) ! k = c ! k"
proof (induction m arbitrary: c)
  case Nil
  show ?case by simp
next
  case (Cons entry m)
  then have ne: "fst entry \<noteq> k" and nm: "k \<notin> fst ` set m" by auto
  show ?case
  proof (cases "fst entry < length c")
    case False
    with Cons.IH [OF nm, of c] show ?thesis by (auto simp: Let_def split: prod.splits)
  next
    case True
    obtain e s' where l: "leg (snd entry) (c ! fst entry) = (e, s')"
      by (cases "leg (snd entry) (c ! fst entry)")
    from Cons.IH [OF nm, of "c[fst entry := s']"] ne True l show ?thesis
      by (auto simp: Let_def split: prod.splits)
  qed
qed

lemma fan_out_leg_applied:
  assumes "distinct (map fst m)" and "(k, g) \<in> set m" and "k < length c"
  shows "snd (fan_out leg m c) ! k = snd (leg g (c ! k))"
  using assms
proof (induction m arbitrary: c)
  case Nil
  then show ?case by simp
next
  case (Cons entry m)
  show ?case
  proof (cases "entry = (k, g)")
    case True
    with Cons.prems(1) have nm: "k \<notin> fst ` set m" by simp
    obtain e s' where l: "leg g (c ! k) = (e, s')" by (cases "leg g (c ! k)")
    from fan_out_untouched [OF nm, of leg "c[k := s']"] Cons.prems(3) True l show ?thesis
      by (auto simp: Let_def split: prod.splits)
  next
    case False
    with Cons.prems have m: "distinct (map fst m)" "(k, g) \<in> set m" and ne: "fst entry \<noteq> k"
      by (auto simp: image_iff)
    show ?thesis
    proof (cases "fst entry < length c")
      case False
      with Cons.IH [OF m Cons.prems(3)] show ?thesis by (auto simp: Let_def split: prod.splits)
    next
      case True
      obtain e s' where l: "leg (snd entry) (c ! fst entry) = (e, s')"
        by (cases "leg (snd entry) (c ! fst entry)")
      from Cons.prems(3) have "k < length (c[fst entry := s'])" by simp
      from Cons.IH [OF m this] ne True l show ?thesis
        by (auto simp: Let_def split: prod.splits)
    qed
  qed
qed

text \<open>
  When every key names a shard of the container, a join fails exactly when one of its
  legs throws.
\<close>

lemma fan_out_failed:
  assumes "distinct (map fst m)" and "\<forall>k \<in> fst ` set m. k < length c"
  shows "fst (fan_out leg m c) = (\<exists>entry \<in> set m. fst (leg (snd entry) (c ! fst entry)) \<noteq> None)"
  using assms
proof (induction m arbitrary: c)
  case Nil
  show ?case by simp
next
  case (Cons entry m)
  obtain e s' where l: "leg (snd entry) (c ! fst entry) = (e, s')"
    by (cases "leg (snd entry) (c ! fst entry)")
  let ?c' = "c[fst entry := s']"
  from Cons.prems have d: "distinct (map fst m)" and nm: "fst entry \<notin> fst ` set m"
    and r: "fst entry < length c" and rm: "\<forall>k \<in> fst ` set m. k < length ?c'" by auto
  have same: "?c' ! fst x = c ! fst x" if "x \<in> set m" for x
  proof -
    from that nm have "fst entry \<noteq> fst x" by (auto simp: image_iff)
    then show ?thesis by simp
  qed
  from Cons.IH [OF d rm]
  have "fst (fan_out leg m ?c') = (\<exists>x \<in> set m. fst (leg (snd x) (?c' ! fst x)) \<noteq> None)" .
  with same have "fst (fan_out leg m ?c') = (\<exists>x \<in> set m. fst (leg (snd x) (c ! fst x)) \<noteq> None)"
    by simp
  with r l show ?case by (auto simp: Let_def split: prod.splits)
qed

lemma insort_key_distinct:
  "k \<notin> fst ` set m \<Longrightarrow> distinct (map fst m) \<Longrightarrow> distinct (map fst (insort_key fst (k, v) m))"
  by (induction m) (auto simp: set_insort_key)

lemma map_insert_distinct: "distinct (map fst m) \<Longrightarrow> distinct (map fst (map_insert kv m))"
  using insort_key_distinct [of "fst kv" m "snd kv"] by (simp add: map_insert_def)

lemma NodeRemoveGet_ids_distinct:
  "NodeRemoveGet_ids s t l acc = Inr m \<Longrightarrow> distinct (map fst acc) \<Longrightarrow> distinct (map fst m)"
  by (induction l arbitrary: acc) (auto simp: Let_def map_insert_distinct split: if_splits)

lemma NodeRemoveGet_groups_distinct:
  "NodeRemoveGet_groups s gs acc = Inr m \<Longrightarrow> distinct (map fst acc) \<Longrightarrow> distinct (map fst m)"
  by (induction gs arbitrary: acc) (auto dest: NodeRemoveGet_ids_distinct split: sum.splits)

lemma NodeRemoveGet_distinct:
  "NodeRemoveGetIncoming s n = Inr m \<Longrightarrow> distinct (map fst m)"
  "NodeRemoveGetOutgoing s n = Inr m \<Longrightarrow> distinct (map fst m)"
  by (auto simp: NodeRemoveGetIncoming_def NodeRemoveGetOutgoing_def
      dest: NodeRemoveGet_groups_distinct split: sum.splits)


text \<open>
  C6. In \<^verbatim>\<open>NodeRemovePeered\<close> of a valid node: when the incoming or the outgoing join
  fails, the result is false and the container is the one the legs left; when both
  succeed, the result is that of the local \<^verbatim>\<open>NodeRemove\<close> run on the node's shard of the
  container the legs left, so the local remove comes after both joins. The legs free no
  node slot on any shard: after both joins every shard has the node records, deleted
  slots and key index it had. Every leg of a join is in the container that join leaves,
  as it ran, whatever the other legs did.
\<close>

theorem NodeRemovePeered_local_after_joins:
  assumes "me < length c" and "CalculateShardId i < length c"
    and "ValidNodeId (c ! CalculateShardId i) i"
  shows "(fst (incoming_future c i) \<or> fst (outgoing_future b c me i) \<longrightarrow>
            NodeRemovePeered b c me i = Inr (False, snd (outgoing_future b c me i)))
       \<and> (\<not> fst (incoming_future c i) \<and> \<not> fst (outgoing_future b c me i) \<longrightarrow>
            NodeRemovePeered b c me i =
              (case NodeRemove_id (snd (outgoing_future b c me i) ! CalculateShardId i) i of
                 Inl e \<Rightarrow> Inl e
               | Inr (removed, s') \<Rightarrow>
                   Inr (removed, (snd (outgoing_future b c me i))[CalculateShardId i := s'])))
       \<and> map node_slots (snd (outgoing_future b c me i)) = map node_slots c
       \<and> (\<forall>legs k g.
            NodeRemoveGetIncoming (c ! CalculateShardId i) (externalToInternal i) = Inr legs
            \<and> (k, g) \<in> set legs \<and> k < length c \<longrightarrow>
            snd (incoming_future c i) ! k = snd (NodeRemoveDeleteIncoming i g (c ! k)))
       \<and> (\<forall>legs k g.
            NodeRemoveGetOutgoing ((if b then c else snd (incoming_future c i)) ! me) (externalToInternal i)
              = Inr legs
            \<and> (k, g) \<in> set legs \<and> k < length c \<longrightarrow>
            snd (outgoing_future b c me i) ! k =
              snd (NodeRemoveDeleteOutgoing i g (snd (incoming_future c i) ! k)))"
proof (intro conjI impI allI)
  assume "fst (incoming_future c i) \<or> fst (outgoing_future b c me i)"
  with assms show "NodeRemovePeered b c me i = Inr (False, snd (outgoing_future b c me i))"
    by (simp add: NodeRemovePeered_def Let_def)
next
  assume "\<not> fst (incoming_future c i) \<and> \<not> fst (outgoing_future b c me i)"
  with assms show "NodeRemovePeered b c me i =
      (case NodeRemove_id (snd (outgoing_future b c me i) ! CalculateShardId i) i of
         Inl e \<Rightarrow> Inl e
       | Inr (removed, s') \<Rightarrow> Inr (removed, (snd (outgoing_future b c me i))[CalculateShardId i := s']))"
    by (simp add: NodeRemovePeered_def Let_def)
next
  show "map node_slots (snd (outgoing_future b c me i)) = map node_slots c"
    by (simp add: outgoing_future_def incoming_future_def joins_frame)
next
  fix legs k g
  assume a: "NodeRemoveGetIncoming (c ! CalculateShardId i) (externalToInternal i) = Inr legs
      \<and> (k, g) \<in> set legs \<and> k < length c"
  then have "distinct (map fst legs)" using NodeRemoveGet_distinct(1) by blast
  with a fan_out_leg_applied [of legs k g c "NodeRemoveDeleteIncoming i"]
  show "snd (incoming_future c i) ! k = snd (NodeRemoveDeleteIncoming i g (c ! k))"
    by (simp add: incoming_future_def incoming_join_def)
next
  fix legs k g
  let ?c1 = "snd (incoming_future c i)"
  assume a: "NodeRemoveGetOutgoing ((if b then c else ?c1) ! me) (externalToInternal i) = Inr legs
      \<and> (k, g) \<in> set legs \<and> k < length c"
  then have d: "distinct (map fst legs)" using NodeRemoveGet_distinct(2) by blast
  have "length ?c1 = length c"
    by (simp add: incoming_future_def incoming_join_def fan_out_length split: sum.splits)
  with a d fan_out_leg_applied [of legs k g ?c1 "NodeRemoveDeleteOutgoing i"]
  show "snd (outgoing_future b c me i) ! k = snd (NodeRemoveDeleteOutgoing i g (?c1 ! k))"
    by (simp add: outgoing_future_def outgoing_join_def)
qed

lemmas peered_defs = NodeRemovePeered_def incoming_future_def outgoing_future_def incoming_join_def
  outgoing_join_def NodeRemoveGetIncoming_def NodeRemoveGetOutgoing_def at_def remove_from_group_def
  container_defs fixture_defs shard_defs CalculateShardId_def MASK_def

lemma crossed_facts:
  "0 < length (crossed ord)" "CalculateShardId 256 < length (crossed ord)"
  "ValidNodeId (crossed ord ! CalculateShardId 256) 256"
  "fst (incoming_future (crossed ord) 256)"
  "NodeRemoveGetIncoming (crossed ord ! CalculateShardId 256) (externalToInternal 256)
     = Inr [(1, [(1, [257])]), (2, [(1, [513])])]"
  "(1, [(1, [257])]) \<in> set [(1, [(1, [257::nat])]), (2::nat, [(1::nat, [513])])]"
  "1 < length (crossed ord)"
  by (simp_all add: peered_defs)


lemma crossed_one_facts:
  "0 < length (crossed_one ord)" "CalculateShardId 256 < length (crossed_one ord)"
  "ValidNodeId (crossed_one ord ! CalculateShardId 256) 256"
  "1 < length (crossed_one ord)" "CalculateShardId 257 < length (crossed_one ord)"
  "ValidNodeId (crossed_one ord ! CalculateShardId 257) 257"
  by (simp_all add: peered_defs)

lemma crossed_one_joins:
  "incoming_future (crossed_one ord) 256 =
     (False, (crossed_one ord)[1 := (crossed_one ord ! 1)
        \<lparr>incoming_relationships := [[], [\<lparr>rel_type_id = 1, ids = []\<rparr>], []]\<rparr>])"
  by (simp add: peered_defs)


lemma crossed_one_outgoing:
  "outgoing_future b (crossed_one ord) 0 256 = (False, snd (incoming_future (crossed_one ord) 256))"
  by (cases b) (simp_all add: peered_defs)


lemma crossed_one_reads:
  "NodeRemoveGetOutgoing ((if b then crossed_one ord else snd (incoming_future (crossed_one ord) 257)) ! 1)
     (externalToInternal 257) = Inr [(1, [(0, [256])])]"
  by (cases b) (simp_all add: peered_defs)


lemma crossed_one_removed:
  "map_sum id fst (NodeRemovePeered b (crossed_one ord) 0 256) = Inr True"
  by (cases b)
    (simp_all add: peered_defs NodeRemove_id_def NodeRemove_def getType_def getTypeId_def removeId_def
      node_keys_erase_def)

theorem NodeRemovePeered_local_after_joins_witness:
  "0 < length (crossed rhs_first) \<and> CalculateShardId 256 < length (crossed rhs_first)
   \<and> ValidNodeId (crossed rhs_first ! CalculateShardId 256) 256
   \<and> fst (incoming_future (crossed rhs_first) 256)
   \<and> NodeRemovePeered True (crossed rhs_first) 0 256 = Inr (False, crossed_after rhs_first)
   \<and> map node_slots (crossed_after rhs_first) = map node_slots (crossed rhs_first)
   \<and> NodeRemoveGetIncoming (crossed rhs_first ! CalculateShardId 256) (externalToInternal 256)
       = Inr [(1, [(1, [257])]), (2, [(1, [513])])]
   \<and> (1, [(1, [257])]) \<in> set [(1, [(1, [257::nat])]), (2::nat, [(1::nat, [513])])]
   \<and> 1 < length (crossed rhs_first)
   \<and> crossed_after rhs_first ! 1 = snd (NodeRemoveDeleteIncoming 256 [(1, [257])] (crossed rhs_first ! 1))
   \<and> 0 < length (crossed_one rhs_first) \<and> CalculateShardId 256 < length (crossed_one rhs_first)
   \<and> ValidNodeId (crossed_one rhs_first ! CalculateShardId 256) 256
   \<and> \<not> fst (incoming_future (crossed_one rhs_first) 256)
   \<and> \<not> fst (outgoing_future True (crossed_one rhs_first) 0 256)
   \<and> NodeRemovePeered True (crossed_one rhs_first) 0 256 =
       (case NodeRemove_id (snd (outgoing_future True (crossed_one rhs_first) 0 256) ! CalculateShardId 256) 256 of
          Inl e \<Rightarrow> Inl e
        | Inr (removed, s') \<Rightarrow>
            Inr (removed, (snd (outgoing_future True (crossed_one rhs_first) 0 256))[CalculateShardId 256 := s']))
   \<and> map_sum id fst (NodeRemovePeered True (crossed_one rhs_first) 0 256) = Inr True
   \<and> 1 < length (crossed_one rhs_first) \<and> CalculateShardId 257 < length (crossed_one rhs_first)
   \<and> ValidNodeId (crossed_one rhs_first ! CalculateShardId 257) 257
   \<and> NodeRemoveGetOutgoing
        ((if True then crossed_one rhs_first else snd (incoming_future (crossed_one rhs_first) 257)) ! 1)
        (externalToInternal 257) = Inr [(1, [(0, [256])])]
   \<and> (1, [(0, [256])]) \<in> set [(1::nat, [(0::nat, [256::nat])])]
   \<and> snd (outgoing_future True (crossed_one rhs_first) 1 257) ! 1 =
       snd (NodeRemoveDeleteOutgoing 257 [(0, [256])] (snd (incoming_future (crossed_one rhs_first) 257) ! 1))"
proof -
  note f = crossed_facts
  note g = crossed_one_facts
  note t1 = NodeRemovePeered_local_after_joins [where c = "crossed rhs_first" and me = 0 and i = 256
      and b = True, OF f(1) f(2) f(3)]
  note t2 = NodeRemovePeered_local_after_joins [where c = "crossed_one rhs_first" and me = 0 and i = 256
      and b = True, OF g(1) g(2) g(3)]
  note t3 = NodeRemovePeered_local_after_joins [where c = "crossed_one rhs_first" and me = 1 and i = 257
      and b = True, OF g(4) g(5) g(6)]
  have r: "NodeRemovePeered True (crossed rhs_first) 0 256 = Inr (False, crossed_after rhs_first)"
    by (rule crossed_remove)
  from t1 f(4) have "NodeRemovePeered True (crossed rhs_first) 0 256
      = Inr (False, snd (outgoing_future True (crossed rhs_first) 0 256))" by blast
  with r have o: "snd (outgoing_future True (crossed rhs_first) 0 256) = crossed_after rhs_first" by simp
  from t1 o have a1: "map node_slots (crossed_after rhs_first) = map node_slots (crossed rhs_first)"
    by simp
  from t1 f(5) f(6) f(7)
  have l1: "snd (incoming_future (crossed rhs_first) 256) ! 1
      = snd (NodeRemoveDeleteIncoming 256 [(1, [257])] (crossed rhs_first ! 1))" by blast
  have a2: "crossed_after rhs_first ! 1 = snd (NodeRemoveDeleteIncoming 256 [(1, [257])] (crossed rhs_first ! 1))"
    by (simp add: peered_defs)
  have j: "\<not> fst (incoming_future (crossed_one rhs_first) 256)"
    "\<not> fst (outgoing_future True (crossed_one rhs_first) 0 256)"
    by (simp_all add: crossed_one_joins crossed_one_outgoing)
  from t2 j have b1: "NodeRemovePeered True (crossed_one rhs_first) 0 256 =
       (case NodeRemove_id (snd (outgoing_future True (crossed_one rhs_first) 0 256) ! CalculateShardId 256) 256 of
          Inl e \<Rightarrow> Inl e
        | Inr (removed, s') \<Rightarrow>
            Inr (removed, (snd (outgoing_future True (crossed_one rhs_first) 0 256))[CalculateShardId 256 := s']))"
    by blast
  note b2 = crossed_one_removed [of True rhs_first]
  note rd = crossed_one_reads [of True rhs_first]
  have mem: "(1, [(0, [256])]) \<in> set [(1::nat, [(0::nat, [256::nat])])]" by simp
  from t3 rd mem g(4)
  have c1: "snd (outgoing_future True (crossed_one rhs_first) 1 257) ! 1 =
       snd (NodeRemoveDeleteOutgoing 257 [(0, [256])] (snd (incoming_future (crossed_one rhs_first) 257) ! 1))"
    by blast
  show ?thesis by (intro conjI; (rule f g r a1 a2 j b1 b2 rd mem c1))
qed

subsection \<open>The node half of the slot allocator\<close>

text \<open>
  The constructor gives a well-formed shard, and the adds and removes of nodes keep the
  deleted node indices inside the vector, away from slot 0 and on zero nodes.
\<close>

lemma Shard_new_ok:
  "sid < 2 ^ 8 \<Longrightarrow> NodeSlots_ok (Shard_new c sid p ord)"
  "RelSlots_ok (Shard_new c sid p ord)" "Adjacency_ok (Shard_new c sid p ord)"
  "Types_dense (node_types (Shard_new c sid p ord))"
  "Types_dense (relationship_types (Shard_new c sid p ord))"
  by (simp_all add: Shard_new_def NodeSlots_ok_def RelSlots_ok_def Adjacency_ok_def Types_dense_def
      Types_new_def)

lemma NodeRemove_outgoing_ids_step:
  assumes "NodeRemove_outgoing_ids t (entry # l) s = Inr s'"
  shows "\<exists>s1. node_slots s1 = node_slots s \<and> shard_id s1 = shard_id s
            \<and> NodeRemove_outgoing_ids t l s1 = Inr s'"
proof -
  let ?n = "externalToInternal (rel_id entry)"
  let ?s1 = "s\<lparr>deleted_relationships := insert ?n (deleted_relationships s)\<rparr>"
  from assms obtain r where r: "removeId (relationship_types s) t (rel_id entry) = Inr r"
    by (cases "removeId (relationship_types s) t (rel_id entry)") (simp_all add: Let_def)
  let ?s3 = "?s1\<lparr>relationship_types := snd r, relationships := (relationships s)[?n := Relationship_zero]\<rparr>"
  from assms r have n: "?n < length (relationships s)"
    by (simp add: Let_def split: if_splits)
  show ?thesis
  proof (cases "CalculateShardId (node_id entry) = shard_id s")
    case False
    with assms r n have "NodeRemove_outgoing_ids t l ?s3 = Inr s'" by (simp add: Let_def)
    moreover have "node_slots ?s3 = node_slots s \<and> shard_id ?s3 = shard_id s"
      by (simp add: node_slots_def)
    ultimately show ?thesis by blast
  next
    case True
    let ?k = "externalToInternal (node_id entry)"
    let ?s4 = "?s3\<lparr>incoming_relationships := (incoming_relationships s)[?k :=
        remove_from_group t (\<lambda>x. rel_id x = rel_id entry) (incoming_relationships s ! ?k)]\<rparr>"
    from assms r n True have k: "?k < length (incoming_relationships s)"
      by (simp add: Let_def split: if_splits)
    with assms r n True have "NodeRemove_outgoing_ids t l ?s4 = Inr s'" by (simp add: Let_def)
    moreover have "node_slots ?s4 = node_slots s \<and> shard_id ?s4 = shard_id s"
      by (simp add: node_slots_def)
    ultimately show ?thesis by blast
  qed
qed

lemma NodeRemove_outgoing_ids_frame:
  "NodeRemove_outgoing_ids t l s = Inr s' \<Longrightarrow> node_slots s' = node_slots s \<and> shard_id s' = shard_id s"
proof (induction l arbitrary: s)
  case Nil
  then show ?case by simp
next
  case (Cons entry l)
  from NodeRemove_outgoing_ids_step [OF Cons.prems]
  obtain s1 where "node_slots s1 = node_slots s" "shard_id s1 = shard_id s"
    "NodeRemove_outgoing_ids t l s1 = Inr s'" by blast
  with Cons.IH [of s1] show ?case by simp
qed

lemma NodeRemove_outgoing_frame:
  "NodeRemove_outgoing gs s = Inr s' \<Longrightarrow> node_slots s' = node_slots s \<and> shard_id s' = shard_id s"
proof (induction gs arbitrary: s)
  case Nil
  then show ?case by simp
next
  case (Cons g gs)
  from Cons.prems obtain s1 where s1: "NodeRemove_outgoing_ids (rel_type_id g) (ids g) s = Inr s1"
    "NodeRemove_outgoing gs s1 = Inr s'"
    by (cases "NodeRemove_outgoing_ids (rel_type_id g) (ids g) s") simp_all
  from NodeRemove_outgoing_ids_frame [OF s1(1)] Cons.IH [OF s1(2)] show ?case by simp
qed

lemma NodeRemove_incoming_ids_step:
  assumes "NodeRemove_incoming_ids x t (entry # l) s = Inr s'"
  shows "\<exists>s1. node_slots s1 = node_slots s \<and> shard_id s1 = shard_id s
            \<and> NodeRemove_incoming_ids x t l s1 = Inr s'"
proof (cases "node_id entry = x")
  case True
  with assms show ?thesis by auto
next
  case False
  let ?n = "externalToInternal (rel_id entry)"
  let ?s1 = "s\<lparr>deleted_relationships := insert (rel_id entry) (deleted_relationships s)\<rparr>"
  from assms False obtain r where r: "removeId (relationship_types s) t (rel_id entry) = Inr r"
    by (cases "removeId (relationship_types s) t (rel_id entry)") (simp_all add: Let_def)
  let ?s3 = "?s1\<lparr>relationship_types := snd r, relationships := (relationships s)[?n := Relationship_zero]\<rparr>"
  from assms False r have n: "?n < length (relationships s)"
    by (simp add: Let_def split: if_splits)
  show ?thesis
  proof (cases "CalculateShardId (node_id entry) = shard_id s")
    case ne: False
    with assms False r n have "NodeRemove_incoming_ids x t l ?s3 = Inr s'" by (simp add: Let_def)
    moreover have "node_slots ?s3 = node_slots s \<and> shard_id ?s3 = shard_id s"
      by (simp add: node_slots_def)
    ultimately show ?thesis by blast
  next
    case True
    let ?k = "externalToInternal (node_id entry)"
    let ?s4 = "?s3\<lparr>outgoing_relationships := (outgoing_relationships s)[?k :=
        remove_from_group t (\<lambda>y. rel_id y = rel_id entry) (outgoing_relationships s ! ?k)]\<rparr>"
    from assms False r n True have k: "?k < length (outgoing_relationships s)"
      by (simp add: Let_def split: if_splits)
    with assms False r n True have "NodeRemove_incoming_ids x t l ?s4 = Inr s'" by (simp add: Let_def)
    moreover have "node_slots ?s4 = node_slots s \<and> shard_id ?s4 = shard_id s"
      by (simp add: node_slots_def)
    ultimately show ?thesis by blast
  qed
qed

lemma NodeRemove_incoming_ids_frame:
  "NodeRemove_incoming_ids x t l s = Inr s' \<Longrightarrow> node_slots s' = node_slots s \<and> shard_id s' = shard_id s"
proof (induction l arbitrary: s)
  case Nil
  then show ?case by simp
next
  case (Cons entry l)
  from NodeRemove_incoming_ids_step [OF Cons.prems]
  obtain s1 where "node_slots s1 = node_slots s" "shard_id s1 = shard_id s"
    "NodeRemove_incoming_ids x t l s1 = Inr s'" by blast
  with Cons.IH [of s1] show ?case by simp
qed

lemma NodeRemove_incoming_frame:
  "NodeRemove_incoming x gs s = Inr s' \<Longrightarrow> node_slots s' = node_slots s \<and> shard_id s' = shard_id s"
proof (induction gs arbitrary: s)
  case Nil
  then show ?case by simp
next
  case (Cons g gs)
  from Cons.prems obtain s1 where s1: "NodeRemove_incoming_ids x (rel_type_id g) (ids g) s = Inr s1"
    "NodeRemove_incoming x gs s1 = Inr s'"
    by (cases "NodeRemove_incoming_ids x (rel_type_id g) (ids g) s") simp_all
  from NodeRemove_incoming_ids_frame [OF s1(1)] Cons.IH [OF s1(2)] show ?case by simp
qed

text \<open>What a successful \<^verbatim>\<open>NodeRemove(type, key)\<close> does to the node store.\<close>

lemma NodeRemove_node_store:
  assumes "NodeRemove s type key = Inr (True, s')"
  shows "\<exists>keys external_id.
           map_of (node_keys s) type = Some keys \<and> map_of keys key = Some external_id
         \<and> 0 < externalToInternal external_id \<and> externalToInternal external_id < length (nodes s)
         \<and> nodes s' = (nodes s)[externalToInternal external_id := Node_zero]
         \<and> deleted_nodes s' = insert (externalToInternal external_id) (deleted_nodes s)
         \<and> node_keys s' = node_keys_erase type key (node_keys s)
         \<and> shard_id s' = shard_id s"
proof -
  from assms obtain keys where keys: "map_of (node_keys s) type = Some keys"
    by (cases "map_of (node_keys s) type") (simp_all add: NodeRemove_def)
  with assms obtain e where e: "map_of keys key = Some e"
    by (cases "map_of keys key") (simp_all add: NodeRemove_def Let_def)
  let ?n = "externalToInternal e"
  from assms keys e have n: "0 < ?n" "?n < length (nodes s)"
    by (simp_all add: NodeRemove_def Let_def split: if_splits)
  let ?s1 = "s\<lparr>node_keys := node_keys_erase type key (node_keys s),
               nodes := (nodes s)[?n := Node_zero],
               deleted_nodes := insert ?n (deleted_nodes s)\<rparr>"
  from assms keys e n obtain r where r: "removeId (node_types s) (getTypeId (node_types s) type) e = Inr r"
    by (cases "removeId (node_types s) (getTypeId (node_types s) type) e")
      (simp_all add: NodeRemove_def Let_def)
  let ?s2 = "?s1\<lparr>node_types := snd r\<rparr>"
  from assms keys e n r obtain og where og: "at (outgoing_relationships s) ?n = Inr og"
    by (cases "at (outgoing_relationships s) ?n") (simp_all add: NodeRemove_def Let_def)
  from assms keys e n r og obtain s3 where s3: "NodeRemove_outgoing og ?s2 = Inr s3"
    by (cases "NodeRemove_outgoing og ?s2") (simp_all add: NodeRemove_def Let_def)
  let ?s4 = "s3\<lparr>outgoing_relationships := (outgoing_relationships s3)[?n := []]\<rparr>"
  from assms keys e n r og s3 obtain ig where ig: "at (incoming_relationships ?s4) ?n = Inr ig"
    by (cases "at (incoming_relationships ?s4) ?n") (simp_all add: NodeRemove_def Let_def)
  from assms keys e n r og s3 ig obtain s5 where s5: "NodeRemove_incoming e ig ?s4 = Inr s5"
    by (cases "NodeRemove_incoming e ig ?s4") (simp_all add: NodeRemove_def Let_def)
  from assms keys e n r og s3 ig s5
  have s': "s' = s5\<lparr>incoming_relationships := (incoming_relationships s5)[?n := []]\<rparr>"
    by (simp add: NodeRemove_def Let_def)
  from NodeRemove_outgoing_frame [OF s3] have f3: "node_slots s3 = node_slots ?s2" "shard_id s3 = shard_id s"
    by simp_all
  from NodeRemove_incoming_frame [OF s5] have f5: "node_slots s5 = node_slots ?s4" "shard_id s5 = shard_id ?s4"
    by simp_all
  from f3 f5 s' have "node_slots s' = node_slots ?s1" "shard_id s' = shard_id s"
    by (simp_all add: node_slots_def)
  with keys e n show ?thesis by (simp add: node_slots_def)
qed

lemma externalToInternal_inverse:
  assumes "n < 2 ^ 56" "shard_id s < 2 ^ 8"
  shows "externalToInternal (internalToExternal s n) = n"
proof -
  have "n * 2 ^ 8 + shard_id s < 2 ^ 64" using assms by simp
  then have "internalToExternal s n = n * 2 ^ 8 + shard_id s"
    by (simp add: internalToExternal_def SHIFTED_BITS_def)
  with assms(2) show ?thesis by (simp add: externalToInternal_def SHIFTED_BITS_def)
qed

lemma NodeRemove_false_same:
  assumes "NodeRemove s type key = Inr (False, s')"
  shows "s' = s"
proof (cases "map_of (node_keys s) type")
  case None
  with assms show ?thesis by (simp add: NodeRemove_def)
next
  case (Some keys)
  with assms obtain e where e: "map_of keys key = Some e"
    by (cases "map_of keys key") (simp_all add: NodeRemove_def Let_def)
  let ?n = "externalToInternal e"
  show ?thesis
  proof (cases "0 < ?n")
    case False
    with assms Some e show ?thesis by (simp add: NodeRemove_def Let_def)
  next
    case True
    with assms Some e have n: "?n < length (nodes s)"
      by (simp add: NodeRemove_def Let_def split: if_splits)
    let ?s1 = "s\<lparr>node_keys := node_keys_erase type key (node_keys s),
                 nodes := (nodes s)[?n := Node_zero],
                 deleted_nodes := insert ?n (deleted_nodes s)\<rparr>"
    from assms Some e True n obtain r where r: "removeId (node_types s) (getTypeId (node_types s) type) e = Inr r"
      by (cases "removeId (node_types s) (getTypeId (node_types s) type) e")
        (simp_all add: NodeRemove_def Let_def)
    let ?s2 = "?s1\<lparr>node_types := snd r\<rparr>"
    from assms Some e True n r obtain og where og: "at (outgoing_relationships s) ?n = Inr og"
      by (cases "at (outgoing_relationships s) ?n") (simp_all add: NodeRemove_def Let_def)
    from assms Some e True n r og obtain s3 where s3: "NodeRemove_outgoing og ?s2 = Inr s3"
      by (cases "NodeRemove_outgoing og ?s2") (simp_all add: NodeRemove_def Let_def)
    let ?s4 = "s3\<lparr>outgoing_relationships := (outgoing_relationships s3)[?n := []]\<rparr>"
    from assms Some e True n r og s3 obtain ig where ig: "at (incoming_relationships ?s4) ?n = Inr ig"
      by (cases "at (incoming_relationships ?s4) ?n") (simp_all add: NodeRemove_def Let_def)
    from assms Some e True n r og s3 ig obtain s5 where s5: "NodeRemove_incoming e ig ?s4 = Inr s5"
      by (cases "NodeRemove_incoming e ig ?s4") (simp_all add: NodeRemove_def Let_def)
    from assms Some e True n r og s3 ig s5 show ?thesis
      by (simp add: NodeRemove_def Let_def)
  qed
qed


lemma slots_after_remove:
  assumes "NodeSlots_ok s" "NodeSlots_zero s" "0 < n" "n < length (nodes s)"
    "nodes s' = (nodes s)[n := Node_zero]" "deleted_nodes s' = insert n (deleted_nodes s)"
    "shard_id s' = shard_id s"
  shows "NodeSlots_ok s' \<and> NodeSlots_zero s'"
proof -
  from assms have "NodeSlots_ok s'" unfolding NodeSlots_ok_def by auto
  moreover have "nodes s' ! i = Node_zero" if "i \<in> deleted_nodes s'" for i
  proof (cases "i = n")
    case True
    with assms(4,5) show ?thesis by simp
  next
    case False
    with that assms(6) have "i \<in> deleted_nodes s" by simp
    with assms(2) have "nodes s ! i = Node_zero" by (simp add: NodeSlots_zero_def)
    with False assms(5) show ?thesis by simp
  qed
  ultimately show ?thesis by (simp add: NodeSlots_zero_def)
qed


lemma NodeRemove_keeps_node_slots:
  assumes "NodeSlots_ok s" "NodeSlots_zero s" "NodeRemove s type key = Inr (b, s')"
  shows "NodeSlots_ok s' \<and> NodeSlots_zero s'"
proof (cases b)
  case False
  with assms(3) have "s' = s" by (simp add: NodeRemove_false_same)
  with assms(1,2) show ?thesis by simp
next
  case True
  with assms(3) have "NodeRemove s type key = Inr (True, s')" by simp
  from NodeRemove_node_store [OF this]
  obtain keys e where e: "0 < externalToInternal e \<and> externalToInternal e < length (nodes s)
      \<and> nodes s' = (nodes s)[externalToInternal e := Node_zero]
      \<and> deleted_nodes s' = insert (externalToInternal e) (deleted_nodes s)
      \<and> node_keys s' = node_keys_erase type key (node_keys s)
      \<and> shard_id s' = shard_id s"
    by (elim exE conjE) simp
  then show ?thesis
    by (intro slots_after_remove [OF assms(1,2), of "externalToInternal e"]) simp_all
qed


lemma NodeAdd_store_keeps_node_slots:
  assumes "NodeSlots_ok s" "NodeSlots_zero s" "Suc (length (nodes s)) < 2 ^ 56"
    and "NodeAdd_store s type node_type key m = Inr (i, s')"
  shows "NodeSlots_ok s' \<and> NodeSlots_zero s'
       \<and> (deleted_nodes s \<noteq> {} \<longrightarrow>
            externalToInternal i = Min (deleted_nodes s) \<and> length (nodes s') = length (nodes s))
       \<and> (deleted_nodes s = {} \<longrightarrow>
            externalToInternal i = length (nodes s) \<and> length (nodes s') = Suc (length (nodes s)))"
proof (cases "deleted_nodes s = {}")
  case True
  let ?e = "internalToExternal s (length (nodes s))"
  from assms(4) True obtain r where r: "addId (node_types s) node_type ?e = Inr r"
    by (cases "addId (node_types s) node_type ?e") (simp_all add: NodeAdd_store_def Let_def)
  with assms(4) True have i: "i = ?e" and s': "nodes s' = nodes s @ [Node_new ?e node_type key m]"
    "deleted_nodes s' = {}" "shard_id s' = shard_id s"
    by (auto simp: NodeAdd_store_def Let_def)
  from assms(1,3) have "externalToInternal ?e = length (nodes s)"
    by (intro externalToInternal_inverse) (simp_all add: NodeSlots_ok_def)
  with assms(1,3) True i s' show ?thesis by (simp add: NodeSlots_ok_def NodeSlots_zero_def)
next
  case False
  let ?n = "Min (deleted_nodes s)"
  let ?e = "internalToExternal s ?n"
  from assms(1) False have mem: "?n \<in> deleted_nodes s" by (simp add: NodeSlots_ok_def)
  with assms(1) have n: "0 < ?n" "?n < length (nodes s)" by (auto simp: NodeSlots_ok_def)
  from assms(4) False n obtain r where r: "addId (node_types s) node_type ?e = Inr r"
    by (cases "addId (node_types s) node_type ?e") (simp_all add: NodeAdd_store_def Let_def)
  with assms(4) False n have i: "i = ?e" and s': "nodes s' = (nodes s)[?n := Node_new ?e node_type key m]"
    "deleted_nodes s' = deleted_nodes s - {?n}" "shard_id s' = shard_id s"
    by (auto simp: NodeAdd_store_def Let_def)
  from assms(1) n have inv: "externalToInternal ?e = ?n"
    by (intro externalToInternal_inverse) (simp_all add: NodeSlots_ok_def)
  from assms(1) s' have "NodeSlots_ok s'" by (auto simp: NodeSlots_ok_def)
  moreover from assms(2) s' have "NodeSlots_zero s'" by (auto simp: NodeSlots_zero_def)
  ultimately show ?thesis using False i inv s'(1) by simp
qed

subsection \<open>The FromJson variants on relationships, on any shard\<close>

text \<open>
  Whatever the shard, the id and the payload: when one of the two functions returns, the
  relationship records are the ones from before the call.
\<close>

lemma RelationshipProperties_FromJson_frame:
  "RelationshipPropertiesSetFromJson s i v = Inr (b, s') \<Longrightarrow> relationships s' = relationships s"
  "RelationshipPropertiesResetFromJson s i v = Inr (b, s') \<Longrightarrow> relationships s' = relationships s"
  by (auto simp: RelationshipPropertiesSetFromJson_def RelationshipPropertiesResetFromJson_def Let_def
      split: if_splits sum.splits option.splits)

end
